theory Spec2Isabelle
  imports Main
begin

section \<open>Entities\<close>

text \<open>
  \<^verbatim>\<open>uuid.UUID\<close> is sixteen bytes; it is read here as the number they spell.
  \<^verbatim>\<open>entities.UserID\<close> is a string. An instant of \<^verbatim>\<open>time.Time\<close> is a number of
  nanoseconds since the Unix epoch.
\<close>

type_synonym uuid = nat
type_synonym user_id = string
type_synonym time = int

datatype message_type = MessageTypeMobileOriginated | MessageTypeMobileTerminated

datatype message_status =
    MessageStatusPending
  | MessageStatusSending
  | MessageStatusSent
  | MessageStatusDelivered
  | MessageStatusFailed
  | MessageStatusReceived

text \<open>
  \<^verbatim>\<open>entities.MessageEventName\<close>: the three names \<^verbatim>\<open>StoreEvent\<close> switches on, and any
  other value of the type (the \<^verbatim>\<open>default\<close> branch).
\<close>

datatype message_event_name =
    MessageEventNameSent
  | MessageEventNameDelivered
  | MessageEventNameFailed
  | MessageEventNameOther string

text \<open>
  Modelled from the spec: \<^verbatim>\<open>entities.Message\<close> is declared outside
  \<^verbatim>\<open>message_service.go\<close>. The fields are those of section 3 of the specification together
  with the ones the composite literals of \<^verbatim>\<open>StoreSentMessage\<close> and
  \<^verbatim>\<open>StoreReceivedMessage\<close> name; \<open>FailedAt\<close> is the failure timestamp of section 4.1.
\<close>

record message =
  ID :: uuid
  Owner :: string
  UserID :: user_id
  Contact :: string
  Content :: string
  Type :: message_type
  Status :: message_status
  RequestReceivedAt :: time
  CreatedAt :: time
  UpdatedAt :: time
  OrderTimestamp :: time
  SendDuration :: "int option"
  LastAttemptedAt :: "time option"
  SentAt :: "time option"
  ReceivedAt :: "time option"
  FailedAt :: "time option"

text \<open>
  Modelled from the spec: the guards and mutators of \<^verbatim>\<open>entities.Message\<close> (section 4.1 of
  the specification). \<open>IsSending\<close> and \<open>IsSent\<close> are pure predicates on the status; each
  mutator sets the new status and its side timestamp.
\<close>

definition IsSending :: "message \<Rightarrow> bool" where
  "IsSending m = (Status m = MessageStatusSending)"

definition IsSent :: "message \<Rightarrow> bool" where
  "IsSent m = (Status m = MessageStatusSent)"

definition AddSendAttempt :: "time \<Rightarrow> message \<Rightarrow> message" where
  "AddSendAttempt timestamp m =
     m\<lparr>Status := MessageStatusSending, LastAttemptedAt := Some timestamp\<rparr>"

definition Sent :: "time \<Rightarrow> message \<Rightarrow> message" where
  "Sent timestamp m =
     m\<lparr>Status := MessageStatusSent, SentAt := Some timestamp,
       SendDuration := Some (timestamp - RequestReceivedAt m)\<rparr>"

definition Failed :: "time \<Rightarrow> message \<Rightarrow> message" where
  "Failed timestamp m = m\<lparr>Status := MessageStatusFailed, FailedAt := Some timestamp\<rparr>"

definition Delivered :: "time \<Rightarrow> message \<Rightarrow> message" where
  "Delivered timestamp m = m\<lparr>Status := MessageStatusDelivered, ReceivedAt := Some timestamp\<rparr>"

section \<open>Events\<close>

text \<open>
  The event types of \<^verbatim>\<open>pkg/events\<close> (the constants \<^verbatim>\<open>events.EventTypeMessageAPISent\<close> and
  so on) and their payloads. Each payload constructor lists the fields in the order of the
  composite literal that builds it in \<^verbatim>\<open>message_service.go\<close>.
\<close>

datatype event_type =
    EventTypeMessageAPISent
  | EventTypeMessagePhoneReceived
  | EventTypeMessagePhoneSending
  | EventTypeMessagePhoneSent
  | EventTypeMessagePhoneFailed
  | EventTypeMessagePhoneDelivered
  | EventTypeHeartbeatPhoneOutstanding

datatype payload =
    MessageAPISentPayload uuid user_id string string time string
      \<comment> \<open>ID, UserID, Owner, Contact, RequestReceivedAt, Content\<close>
  | MessagePhoneReceivedPayload uuid string string time string
      \<comment> \<open>ID, Owner, Contact, Timestamp, Content\<close>
  | MessagePhoneSendingPayload uuid string string user_id string
      \<comment> \<open>ID, Owner, Contact, UserID, Content\<close>
  | MessagePhoneSentPayload uuid string user_id time string string
      \<comment> \<open>ID, Owner, UserID, Timestamp, Contact, Content\<close>
  | MessagePhoneDeliveredPayload uuid string time string string
      \<comment> \<open>ID, Owner, Timestamp, Contact, Content\<close>
  | MessagePhoneFailedPayload uuid string time string user_id string
      \<comment> \<open>ID, Owner, Timestamp, Contact, UserID, Content\<close>
  | HeartbeatPhoneOutstandingPayload string time int
      \<comment> \<open>Owner, Timestamp, Quantity\<close>

text \<open>
  \<^verbatim>\<open>cloudevents.Event\<close>: the envelope. \<open>ev_Data\<close> is \<open>None\<close> until \<^verbatim>\<open>SetData\<close> has
  succeeded.
\<close>

record cloud_event =
  ev_Source :: string
  ev_Type :: event_type
  ev_Time :: time
  ev_ID :: uuid
  ev_Data :: "payload option"

section \<open>Errors\<close>

text \<open>
  Every message the service formats with \<^verbatim>\<open>fmt.Sprintf\<close> is a constructor carrying the
  values formatted into it.
\<close>

datatype failure =
    CouldNotFetchOutstanding int
      \<comment> \<open>\<^verbatim>\<open>could not fetch [%d] outstanding messages\<close>\<close>
  | CannotHandleMessageEvent message_event_name
      \<comment> \<open>\<^verbatim>\<open>cannot handle message event [%s]\<close>\<close>
  | CouldNotHandlePhoneEvent message_event_name uuid
      \<comment> \<open>\<^verbatim>\<open>could not handle phone event [%s] for message with id [%s]\<close>\<close>
  | CannotCreateFromPayload uuid
      \<comment> \<open>\<^verbatim>\<open>cannot create %T from payload with message id [%s]\<close>\<close>
  | CannotDispatchEvent event_type uuid
      \<comment> \<open>\<^verbatim>\<open>cannot dispatch event type [%s] and id [%s]\<close>\<close>
  | CannotLoadInUserRepository uuid
      \<comment> \<open>\<^verbatim>\<open>cannot load message with ID [%s] in the userRepository\<close>\<close>
  | CannotCreateEventForMessage event_type uuid
      \<comment> \<open>\<^verbatim>\<open>cannot create event [%s] for message [%s]\<close>\<close>
  | CannotCreateEventForOwner event_type string
      \<comment> \<open>\<^verbatim>\<open>cannot create event [%s] for owner [%s]\<close>\<close>
  | CannotCreateForMessage uuid
      \<comment> \<open>\<^verbatim>\<open>cannot create [%T] for message with ID [%s]\<close>\<close>
  | CannotDispatchForMessage event_type uuid uuid
      \<comment> \<open>\<^verbatim>\<open>cannot dispatch event [%s] with id [%s] for message [%s]\<close>\<close>
  | CannotLoadMessage uuid
      \<comment> \<open>\<^verbatim>\<open>cannot load message with id [%s]\<close>\<close>
  | CannotSaveMessage uuid
      \<comment> \<open>\<^verbatim>\<open>cannot save message with id [%s]\<close>\<close>
  | CannotFindMessage uuid
      \<comment> \<open>\<^verbatim>\<open>cannot find message with id [%s]\<close>\<close>
  | WrongStatus message_status "message_status list"
      \<comment> \<open>\<^verbatim>\<open>message has wrong status [%s]. expected %s\<close>: the actual status, the expected ones\<close>
  | CannotUpdateAfterSending uuid
      \<comment> \<open>\<^verbatim>\<open>cannot update message with id [%s] after sending\<close>\<close>
  | CannotUpdateAsSent uuid
      \<comment> \<open>\<^verbatim>\<open>cannot update message with id [%s] as sent\<close>\<close>
  | CannotEncodeAsJSON payload
      \<comment> \<open>\<^verbatim>\<open>cannot encode %T [%#+v] as JSON\<close>\<close>

text \<open>
  An error value is one a collaborator returned (\<open>NotFound\<close>, or any other, numbered), one
  made by \<^verbatim>\<open>stacktrace.NewError\<close>, or one wrapped by \<^verbatim>\<open>stacktrace.Propagate\<close>. A Go
  \<^verbatim>\<open>error\<close> result is an \<open>error option\<close>, \<open>None\<close> being \<^verbatim>\<open>nil\<close>.
\<close>

datatype error =
    NotFound
  | External nat
  | NewError failure
  | Propagate error failure

section \<open>The collaborators\<close>

text \<open>
  What the service does to its collaborators is recorded in a trace, one entry per call, in
  the order of the calls. \<open>LogError\<close> is a call of \<^verbatim>\<open>ctxLogger.Error\<close>; informational
  logging and tracing spans have no entry.
\<close>

datatype call =
    CallGetOutstanding user_id string int
  | CallLoad user_id uuid
  | CallStore message
  | CallUpdate message
  | CallDispatch cloud_event
  | LogError error

text \<open>
  What the collaborators answer is recorded too, one entry per answer, in the order of the
  answers: the result of the fetch, of a \<open>Load\<close>, a \<open>Store\<close>, an \<open>Update\<close> or a
  \<open>Dispatch\<close>, and whether \<^verbatim>\<open>SetData\<close> could encode a payload. The record is written
  by the collaborators alone, so a failure found in it is a failure of the environment,
  whatever the service makes of it.
\<close>

datatype answer =
    GetOutstandingAnswer user_id string int "error + message list"
  | LoadAnswer user_id uuid "error + message"
  | StoreAnswer message "error option"
  | UpdateAnswer message "error option"
  | DispatchAnswer cloud_event "error option"
  | SetDataAnswer payload "error option"

text \<open>
  The world is the content of the repository, the trace, the answers, and a counter of the
  questions the environment has been asked so far.
\<close>

record world =
  store :: "uuid \<rightharpoonup> message"
  trace :: "call list"
  tick :: nat
  answers :: "answer list"

text \<open>
  The environment of the service. Every answer may depend on the moment it is asked for (the
  counter of the world):
  \<^item> \<open>loadFault\<close>, \<open>storeFault\<close>, \<open>updateFault\<close>: whether the repository fails on this call;
  \<^item> \<open>fetchOutstanding\<close>: the repository's own selection of the outstanding messages, and
    what it does to the stored messages;
  \<^item> \<open>setData\<close>: whether \<^verbatim>\<open>SetData\<close> can encode the payload as JSON;
  \<^item> \<open>publish\<close>: whether the event bus accepts the event, and what its subscribers do to the
    stored messages;
  \<^item> \<open>clock\<close>, \<open>uuids\<close>: the values of \<^verbatim>\<open>time.Now().UTC()\<close> and \<^verbatim>\<open>uuid.New()\<close>;
  \<^item> \<open>formatE164\<close>: \<^verbatim>\<open>phonenumbers.Format\<close> of a number in the E164 format.
\<close>

record phone_number =
  CountryCode :: nat
  NationalNumber :: nat

record collab =
  loadFault :: "nat \<Rightarrow> user_id \<Rightarrow> uuid \<Rightarrow> error option"
  storeFault :: "nat \<Rightarrow> message \<Rightarrow> error option"
  updateFault :: "nat \<Rightarrow> message \<Rightarrow> error option"
  fetchOutstanding ::
    "nat \<Rightarrow> (uuid \<rightharpoonup> message) \<Rightarrow> user_id \<Rightarrow> string \<Rightarrow> int
       \<Rightarrow> (error + message list) \<times> (uuid \<rightharpoonup> message)"
  setData :: "nat \<Rightarrow> payload \<Rightarrow> error option"
  publish ::
    "nat \<Rightarrow> cloud_event \<Rightarrow> (uuid \<rightharpoonup> message) \<Rightarrow> error option \<times> (uuid \<rightharpoonup> message)"
  clock :: "nat \<Rightarrow> time"
  uuids :: "nat \<Rightarrow> uuid"
  formatE164 :: "phone_number \<Rightarrow> string"

definition called :: "call \<Rightarrow> world \<Rightarrow> world" where
  "called c w = w\<lparr>trace := trace w @ [c], tick := Suc (tick w)\<rparr>"

definition answered :: "answer \<Rightarrow> world \<Rightarrow> world" where
  "answered a w = w\<lparr>answers := answers w @ [a]\<rparr>"

definition time_Now :: "collab \<Rightarrow> world \<Rightarrow> time \<times> world" where
  "time_Now env w = (clock env (tick w), w\<lparr>tick := Suc (tick w)\<rparr>)"

definition uuid_New :: "collab \<Rightarrow> world \<Rightarrow> uuid \<times> world" where
  "uuid_New env w = (uuids env (tick w), w\<lparr>tick := Suc (tick w)\<rparr>)"

text \<open>
  Modelled from the spec: \<^verbatim>\<open>repositories.MessageRepository\<close> (section 6 of the
  specification). A message is stored under its \<open>ID\<close>; \<open>Load\<close> answers with the message of
  that ID owned by that user, or \<open>NotFound\<close>; \<open>Store\<close> and \<open>Update\<close> write the message or fail.
\<close>

definition Load :: "collab \<Rightarrow> user_id \<Rightarrow> uuid \<Rightarrow> world \<Rightarrow> (error + message) \<times> world" where
  "Load env userID messageID w =
     (let r = (case loadFault env (tick w) userID messageID of
                 Some err \<Rightarrow> Inl err
               | None \<Rightarrow>
                   (case store w messageID of
                      None \<Rightarrow> Inl NotFound
                    | Some m \<Rightarrow> if UserID m = userID then Inr m else Inl NotFound))
      in (r, answered (LoadAnswer userID messageID r) (called (CallLoad userID messageID) w)))"

definition Store :: "collab \<Rightarrow> message \<Rightarrow> world \<Rightarrow> error option \<times> world" where
  "Store env m w =
     (let w1 = answered (StoreAnswer m (storeFault env (tick w) m)) (called (CallStore m) w) in
      case storeFault env (tick w) m of
        Some err \<Rightarrow> (Some err, w1)
      | None \<Rightarrow> (None, w1\<lparr>store := (store w1)(ID m \<mapsto> m)\<rparr>))"

definition Update :: "collab \<Rightarrow> message \<Rightarrow> world \<Rightarrow> error option \<times> world" where
  "Update env m w =
     (let w1 = answered (UpdateAnswer m (updateFault env (tick w) m)) (called (CallUpdate m) w)
      in case updateFault env (tick w) m of
           Some err \<Rightarrow> (Some err, w1)
         | None \<Rightarrow> (None, w1\<lparr>store := (store w1)(ID m \<mapsto> m)\<rparr>))"

definition repository_GetOutstanding ::
  "collab \<Rightarrow> user_id \<Rightarrow> string \<Rightarrow> int \<Rightarrow> world \<Rightarrow> (error + message list) \<times> world" where
  "repository_GetOutstanding env userID owner limit w =
     (let w1 = called (CallGetOutstanding userID owner limit) w in
      case fetchOutstanding env (tick w) (store w) userID owner limit of
        (r, s) \<Rightarrow> (r, answered (GetOutstandingAnswer userID owner limit r) (w1\<lparr>store := s\<rparr>)))"

text \<open>
  Modelled from the spec: \<^verbatim>\<open>EventDispatcher.Dispatch\<close> (section 6 of the specification)
  publishes the event to the bus and may fail.
\<close>

definition Dispatch :: "collab \<Rightarrow> cloud_event \<Rightarrow> world \<Rightarrow> error option \<times> world" where
  "Dispatch env event w =
     (let w1 = called (CallDispatch event) w in
      case publish env (tick w) event (store w) of
        (r, s) \<Rightarrow> (r, answered (DispatchAnswer event r) (w1\<lparr>store := s\<rparr>)))"

text \<open>
  \<^verbatim>\<open>SetData\<close> of \<^verbatim>\<open>cloudevents\<close> with \<^verbatim>\<open>ApplicationJSON\<close>: it encodes the payload as
  JSON, or fails.
\<close>

definition SetData :: "collab \<Rightarrow> payload \<Rightarrow> world \<Rightarrow> error option \<times> world" where
  "SetData env pl w =
     (let r = setData env (tick w) pl in (r, answered (SetDataAnswer pl r) w))"

definition ctxLogger_Error :: "error \<Rightarrow> world \<Rightarrow> world" where
  "ctxLogger_Error err w = w\<lparr>trace := trace w @ [LogError err]\<rparr>"

text \<open>The events dispatched so far, in order.\<close>

fun dispatched :: "call list \<Rightarrow> cloud_event list" where
  "dispatched [] = []"
| "dispatched (CallDispatch e # cs) = e # dispatched cs"
| "dispatched (_ # cs) = dispatched cs"

text \<open>The messages handed to \<^verbatim>\<open>Update\<close> so far, in order.\<close>

fun updated :: "call list \<Rightarrow> message list" where
  "updated [] = []"
| "updated (CallUpdate m # cs) = m # updated cs"
| "updated (_ # cs) = updated cs"

text \<open>The errors logged so far, in order.\<close>

fun logged :: "call list \<Rightarrow> error list" where
  "logged [] = []"
| "logged (LogError e # cs) = e # logged cs"
| "logged (_ # cs) = logged cs"

section \<open>The message service\<close>

subsection \<open>createEvent\<close>

text \<open>
  \<^verbatim>\<open>createEvent\<close> returns the envelope together with the error: when \<^verbatim>\<open>SetData\<close> fails
  the envelope has its source, type, time and ID, and no data.
\<close>

definition createEvent ::
  "collab \<Rightarrow> event_type \<Rightarrow> string \<Rightarrow> payload \<Rightarrow> world \<Rightarrow> (cloud_event \<times> error option) \<times> world" where
  "createEvent env eventType source pl w =
     (case time_Now env w of (now, w1) \<Rightarrow>
      case uuid_New env w1 of (eventID, w2) \<Rightarrow>
        (let event = \<lparr>ev_Source = source, ev_Type = eventType, ev_Time = now,
                      ev_ID = eventID, ev_Data = None\<rparr>
         in case SetData env pl w2 of
              (Some err, w3) \<Rightarrow> ((event, Some (Propagate err (CannotEncodeAsJSON pl))), w3)
            | (None, w3) \<Rightarrow> ((event\<lparr>ev_Data := Some pl\<rparr>, None), w3)))"

subsection \<open>HandleMessageSending, HandleMessageSent, HandleMessageFailed, HandleMessageDelivered\<close>

record handle_message_params =
  hm_ID :: uuid
  hm_UserID :: user_id
  hm_Timestamp :: time

definition HandleMessageSending ::
  "collab \<Rightarrow> handle_message_params \<Rightarrow> world \<Rightarrow> error option \<times> world" where
  "HandleMessageSending env params w =
     (case Load env (hm_UserID params) (hm_ID params) w of
        (Inl err, w1) \<Rightarrow> (Some (Propagate err (CannotFindMessage (hm_ID params))), w1)
      | (Inr m, w1) \<Rightarrow>
          if \<not> IsSending m
          then (Some (NewError (WrongStatus (Status m) [MessageStatusSending])), w1)
          else (case Update env (AddSendAttempt (hm_Timestamp params) m) w1 of
                  (Some err, w2) \<Rightarrow> (Some (Propagate err (CannotUpdateAfterSending (ID m))), w2)
                | (None, w2) \<Rightarrow> (None, w2)))"

definition HandleMessageSent ::
  "collab \<Rightarrow> handle_message_params \<Rightarrow> world \<Rightarrow> error option \<times> world" where
  "HandleMessageSent env params w =
     (case Load env (hm_UserID params) (hm_ID params) w of
        (Inl err, w1) \<Rightarrow> (Some (Propagate err (CannotFindMessage (hm_ID params))), w1)
      | (Inr m, w1) \<Rightarrow>
          if \<not> IsSending m
          then (Some (NewError (WrongStatus (Status m) [MessageStatusSending])), w1)
          else (case Update env (Sent (hm_Timestamp params) m) w1 of
                  (Some err, w2) \<Rightarrow> (Some (Propagate err (CannotUpdateAsSent (ID m))), w2)
                | (None, w2) \<Rightarrow> (None, w2)))"

definition HandleMessageFailed ::
  "collab \<Rightarrow> handle_message_params \<Rightarrow> world \<Rightarrow> error option \<times> world" where
  "HandleMessageFailed env params w =
     (case Load env (hm_UserID params) (hm_ID params) w of
        (Inl err, w1) \<Rightarrow> (Some (Propagate err (CannotFindMessage (hm_ID params))), w1)
      | (Inr m, w1) \<Rightarrow>
          if \<not> IsSent m \<and> \<not> IsSending m
          then (Some (NewError (WrongStatus (Status m)
                                  [MessageStatusSending, MessageStatusSent])), w1)
          else (case Update env (Failed (hm_Timestamp params) m) w1 of
                  (Some err, w2) \<Rightarrow> (Some (Propagate err (CannotUpdateAsSent (ID m))), w2)
                | (None, w2) \<Rightarrow> (None, w2)))"

definition HandleMessageDelivered ::
  "collab \<Rightarrow> handle_message_params \<Rightarrow> world \<Rightarrow> error option \<times> world" where
  "HandleMessageDelivered env params w =
     (case Load env (hm_UserID params) (hm_ID params) w of
        (Inl err, w1) \<Rightarrow> (Some (Propagate err (CannotFindMessage (hm_ID params))), w1)
      | (Inr m, w1) \<Rightarrow>
          if \<not> IsSent m
          then (Some (NewError (WrongStatus (Status m) [MessageStatusSent])), w1)
          else (case Update env (Delivered (hm_Timestamp params) m) w1 of
                  (Some err, w2) \<Rightarrow> (Some (Propagate err (CannotUpdateAsSent (ID m))), w2)
                | (None, w2) \<Rightarrow> (None, w2)))"

subsection \<open>The event constructors\<close>

definition createMessageAPISentEvent ::
  "collab \<Rightarrow> string \<Rightarrow> payload \<Rightarrow> world \<Rightarrow> (cloud_event \<times> error option) \<times> world" where
  "createMessageAPISentEvent env source pl = createEvent env EventTypeMessageAPISent source pl"

definition createMessagePhoneReceivedEvent ::
  "collab \<Rightarrow> string \<Rightarrow> payload \<Rightarrow> world \<Rightarrow> (cloud_event \<times> error option) \<times> world" where
  "createMessagePhoneReceivedEvent env source pl =
     createEvent env EventTypeMessagePhoneReceived source pl"

definition createMessagePhoneSendingEvent ::
  "collab \<Rightarrow> string \<Rightarrow> payload \<Rightarrow> world \<Rightarrow> (cloud_event \<times> error option) \<times> world" where
  "createMessagePhoneSendingEvent env source pl =
     createEvent env EventTypeMessagePhoneSending source pl"

definition createMessagePhoneSentEvent ::
  "collab \<Rightarrow> string \<Rightarrow> payload \<Rightarrow> world \<Rightarrow> (cloud_event \<times> error option) \<times> world" where
  "createMessagePhoneSentEvent env source pl = createEvent env EventTypeMessagePhoneSent source pl"

definition createMessagePhoneFailedEvent ::
  "collab \<Rightarrow> string \<Rightarrow> payload \<Rightarrow> world \<Rightarrow> (cloud_event \<times> error option) \<times> world" where
  "createMessagePhoneFailedEvent env source pl =
     createEvent env EventTypeMessagePhoneFailed source pl"

definition createHeartbeatPhoneOutstandingEvent ::
  "collab \<Rightarrow> string \<Rightarrow> payload \<Rightarrow> world \<Rightarrow> (cloud_event \<times> error option) \<times> world" where
  "createHeartbeatPhoneOutstandingEvent env source pl =
     createEvent env EventTypeHeartbeatPhoneOutstanding source pl"

definition createMessagePhoneDeliveredEvent ::
  "collab \<Rightarrow> string \<Rightarrow> payload \<Rightarrow> world \<Rightarrow> (cloud_event \<times> error option) \<times> world" where
  "createMessagePhoneDeliveredEvent env source pl =
     createEvent env EventTypeMessagePhoneDelivered source pl"

subsection \<open>StoreEvent and its handlers\<close>

record message_store_phone_event_params =
  pe_MessageID :: uuid
  pe_EventName :: message_event_name
  pe_Timestamp :: time
  pe_Source :: string

text \<open>
  All three handlers format their creation error with \<^verbatim>\<open>events.EventTypeMessagePhoneSent\<close>,
  as the source does.
\<close>

definition handleMessageSentEvent ::
  "collab \<Rightarrow> message_store_phone_event_params \<Rightarrow> message \<Rightarrow> world \<Rightarrow> error option \<times> world" where
  "handleMessageSentEvent env params m w =
     (case createMessagePhoneSentEvent env (pe_Source params)
             (MessagePhoneSentPayload (ID m) (Owner m) (UserID m) (pe_Timestamp params)
                (Contact m) (Content m)) w of
        ((event, Some err), w1) \<Rightarrow>
          (Some (Propagate err (CannotCreateEventForMessage EventTypeMessagePhoneSent (ID m))), w1)
      | ((event, None), w1) \<Rightarrow>
          (case Dispatch env event w1 of
             (Some err, w2) \<Rightarrow>
               (Some (Propagate err (CannotDispatchEvent (ev_Type event) (ev_ID event))), w2)
           | (None, w2) \<Rightarrow> (None, w2)))"

definition handleMessageDeliveredEvent ::
  "collab \<Rightarrow> message_store_phone_event_params \<Rightarrow> message \<Rightarrow> world \<Rightarrow> error option \<times> world" where
  "handleMessageDeliveredEvent env params m w =
     (case createMessagePhoneDeliveredEvent env (pe_Source params)
             (MessagePhoneDeliveredPayload (ID m) (Owner m) (pe_Timestamp params)
                (Contact m) (Content m)) w of
        ((event, Some err), w1) \<Rightarrow>
          (Some (Propagate err (CannotCreateEventForMessage EventTypeMessagePhoneSent (ID m))), w1)
      | ((event, None), w1) \<Rightarrow>
          (case Dispatch env event w1 of
             (Some err, w2) \<Rightarrow>
               (Some (Propagate err (CannotDispatchEvent (ev_Type event) (ev_ID event))), w2)
           | (None, w2) \<Rightarrow> (None, w2)))"

definition handleMessageFailedEvent ::
  "collab \<Rightarrow> message_store_phone_event_params \<Rightarrow> message \<Rightarrow> world \<Rightarrow> error option \<times> world" where
  "handleMessageFailedEvent env params m w =
     (case createMessagePhoneFailedEvent env (pe_Source params)
             (MessagePhoneFailedPayload (ID m) (Owner m) (pe_Timestamp params)
                (Contact m) (UserID m) (Content m)) w of
        ((event, Some err), w1) \<Rightarrow>
          (Some (Propagate err (CannotCreateEventForMessage EventTypeMessagePhoneSent (ID m))), w1)
      | ((event, None), w1) \<Rightarrow>
          (case Dispatch env event w1 of
             (Some err, w2) \<Rightarrow>
               (Some (Propagate err (CannotDispatchEvent (ev_Type event) (ev_ID event))), w2)
           | (None, w2) \<Rightarrow> (None, w2)))"

text \<open>
  The \<^verbatim>\<open>switch\<close> of \<^verbatim>\<open>StoreEvent\<close>: the handler's result, or \<open>None\<close> in the
  \<^verbatim>\<open>default\<close> branch, which returns at once.
\<close>

definition StoreEvent ::
  "collab \<Rightarrow> message \<Rightarrow> message_store_phone_event_params \<Rightarrow> world
     \<Rightarrow> (error + message) \<times> world" where
  "StoreEvent env m params w =
     (case (case pe_EventName params of
              MessageEventNameSent \<Rightarrow> Some (handleMessageSentEvent env params m w)
            | MessageEventNameDelivered \<Rightarrow> Some (handleMessageDeliveredEvent env params m w)
            | MessageEventNameFailed \<Rightarrow> Some (handleMessageFailedEvent env params m w)
            | MessageEventNameOther s \<Rightarrow> None) of
        None \<Rightarrow> (Inl (NewError (CannotHandleMessageEvent (pe_EventName params))), w)
      | Some (Some err, w1) \<Rightarrow>
          (Inl (Propagate err (CouldNotHandlePhoneEvent (pe_EventName params) (ID m))), w1)
      | Some (None, w1) \<Rightarrow> Load env (UserID m) (pe_MessageID params) w1)"

subsection \<open>GetOutstanding\<close>

record message_get_outstanding_params =
  go_Source :: string
  go_Owner :: string
  go_UserID :: user_id
  go_Timestamp :: time
  go_Limit :: int

text \<open>
  \<^verbatim>\<open>registerHeartbeatEvent\<close> returns nothing. After logging the creation error it goes on
  to the dispatch: the first \<^verbatim>\<open>if\<close> of the source has no \<^verbatim>\<open>return\<close>.
\<close>

definition registerHeartbeatEvent ::
  "collab \<Rightarrow> int \<Rightarrow> message_get_outstanding_params \<Rightarrow> world \<Rightarrow> world" where
  "registerHeartbeatEvent env quantity params w =
     (case createHeartbeatPhoneOutstandingEvent env (go_Source params)
             (HeartbeatPhoneOutstandingPayload (go_Owner params) (go_Timestamp params) quantity)
             w of
        ((event, err), w1) \<Rightarrow>
          (let w2 = (case err of
                       Some e \<Rightarrow>
                         ctxLogger_Error
                           (Propagate e (CannotCreateEventForOwner
                              EventTypeHeartbeatPhoneOutstanding (go_Owner params))) w1
                     | None \<Rightarrow> w1)
           in case Dispatch env event w2 of
                (Some e, w3) \<Rightarrow>
                  ctxLogger_Error
                    (Propagate e (CannotDispatchEvent (ev_Type event) (ev_ID event))) w3
              | (None, w3) \<Rightarrow> w3))"

text \<open>
  The body of the goroutine that \<^verbatim>\<open>handleOutstandingMessages\<close> starts for one message:
  the reloaded message, or \<open>None\<close> after logging the error of the step that failed.
\<close>

definition outstandingMessage ::
  "collab \<Rightarrow> string \<Rightarrow> message \<Rightarrow> world \<Rightarrow> message option \<times> world" where
  "outstandingMessage env source m w =
     (case createMessagePhoneSendingEvent env source
             (MessagePhoneSendingPayload (ID m) (Owner m) (Contact m) (UserID m) (Content m))
             w of
        ((event, Some err), w1) \<Rightarrow>
          (None, ctxLogger_Error (Propagate err (CannotCreateForMessage (ID m))) w1)
      | ((event, None), w1) \<Rightarrow>
          (case Dispatch env event w1 of
             (Some err, w2) \<Rightarrow>
               (None, ctxLogger_Error
                        (Propagate err
                           (CannotDispatchForMessage (ev_Type event) (ev_ID event) (ID m))) w2)
           | (None, w2) \<Rightarrow>
               (case Load env (UserID m) (ID m) w2 of
                  (Inl err, w3) \<Rightarrow>
                    (None, ctxLogger_Error (Propagate err (CannotLoadMessage (ID m))) w3)
                | (Inr resultMessage, w3) \<Rightarrow> (Some resultMessage, w3))))"

text \<open>
  The goroutines of one batch run here one after the other, each to its end, in the order of
  the list; the results are appended in the order of completion, and the function returns
  once the last goroutine is done (\<^verbatim>\<open>wg.Wait()\<close>).
\<close>

fun collectOutstanding ::
  "collab \<Rightarrow> string \<Rightarrow> message list \<Rightarrow> message list \<Rightarrow> world \<Rightarrow> message list \<times> world" where
  "collectOutstanding env source [] results w = (results, w)"
| "collectOutstanding env source (m # ms) results w =
     (case outstandingMessage env source m w of
        (None, w1) \<Rightarrow> collectOutstanding env source ms results w1
      | (Some r, w1) \<Rightarrow> collectOutstanding env source ms (results @ [r]) w1)"

definition handleOutstandingMessages ::
  "collab \<Rightarrow> string \<Rightarrow> message list \<Rightarrow> world \<Rightarrow> message list \<times> world" where
  "handleOutstandingMessages env source messages w =
     collectOutstanding env source messages [] w"

text \<open>
  \<^verbatim>\<open>GetOutstanding\<close> in the run in which each goroutine runs to its end as it is started:
  the heartbeat at its \<^verbatim>\<open>go\<close> statement, then the goroutines of the fan-out. It is one run
  among those of \<open>GetOutstanding_scheduled\<close> below, where the steps of the goroutines
  interleave.
\<close>

definition GetOutstanding ::
  "collab \<Rightarrow> message_get_outstanding_params \<Rightarrow> world \<Rightarrow> (error + message list) \<times> world" where
  "GetOutstanding env params w =
     (case repository_GetOutstanding env (go_UserID params) (go_Owner params)
             (go_Limit params) w of
        (Inl err, w1) \<Rightarrow>
          (Inl (Propagate err (CouldNotFetchOutstanding (go_Limit params))), w1)
      | (Inr messages, w1) \<Rightarrow>
          (let w2 = registerHeartbeatEvent env (int (length messages)) params w1
           in case handleOutstandingMessages env (go_Source params) messages w2 of
                (results, w3) \<Rightarrow> (Inr results, w3)))"

text \<open>
  The goroutines step by step. A goroutine of the fan-out is at its start, has built
  its event, has published it, or is finished; a step takes it over its next call and what
  it does with the answer.
\<close>

datatype goroutine = Started message | Built message cloud_event | Published message | Finished

definition advance ::
  "collab \<Rightarrow> string \<Rightarrow> goroutine \<Rightarrow> message list \<Rightarrow> world
     \<Rightarrow> goroutine \<times> message list \<times> world" where
  "advance env source g results w =
     (case g of
        Started m \<Rightarrow>
          (case createMessagePhoneSendingEvent env source
                  (MessagePhoneSendingPayload (ID m) (Owner m) (Contact m) (UserID m)
                     (Content m)) w of
             ((event, Some err), w1) \<Rightarrow>
               (Finished, results,
                ctxLogger_Error (Propagate err (CannotCreateForMessage (ID m))) w1)
           | ((event, None), w1) \<Rightarrow> (Built m event, results, w1))
      | Built m event \<Rightarrow>
          (case Dispatch env event w of
             (Some err, w2) \<Rightarrow>
               (Finished, results,
                ctxLogger_Error
                  (Propagate err
                     (CannotDispatchForMessage (ev_Type event) (ev_ID event) (ID m))) w2)
           | (None, w2) \<Rightarrow> (Published m, results, w2))
      | Published m \<Rightarrow>
          (case Load env (UserID m) (ID m) w of
             (Inl err, w3) \<Rightarrow>
               (Finished, results,
                ctxLogger_Error (Propagate err (CannotLoadMessage (ID m))) w3)
           | (Inr resultMessage, w3) \<Rightarrow> (Finished, results @ [resultMessage], w3))
      | Finished \<Rightarrow> (Finished, results, w))"

text \<open>
  The heartbeat goroutine (\<^verbatim>\<open>registerHeartbeatEvent\<close>), step by step: it builds its event,
  logging the error if there is one, and then dispatches the event whatever the first step
  gave, logging the error if there is one.
\<close>

datatype heartbeat = HeartbeatStarted | HeartbeatBuilt cloud_event | HeartbeatFinished

definition beat ::
  "collab \<Rightarrow> int \<Rightarrow> message_get_outstanding_params \<Rightarrow> heartbeat \<Rightarrow> world
     \<Rightarrow> heartbeat \<times> world" where
  "beat env quantity params h w =
     (case h of
        HeartbeatStarted \<Rightarrow>
          (case createHeartbeatPhoneOutstandingEvent env (go_Source params)
                  (HeartbeatPhoneOutstandingPayload (go_Owner params) (go_Timestamp params)
                     quantity) w of
             ((event, err), w1) \<Rightarrow>
               (HeartbeatBuilt event,
                (case err of
                   Some e \<Rightarrow>
                     ctxLogger_Error
                       (Propagate e (CannotCreateEventForOwner
                          EventTypeHeartbeatPhoneOutstanding (go_Owner params))) w1
                 | None \<Rightarrow> w1)))
      | HeartbeatBuilt event \<Rightarrow>
          (case Dispatch env event w of
             (Some e, w3) \<Rightarrow>
               (HeartbeatFinished,
                ctxLogger_Error
                  (Propagate e (CannotDispatchEvent (ev_Type event) (ev_ID event))) w3)
           | (None, w3) \<Rightarrow> (HeartbeatFinished, w3))
      | HeartbeatFinished \<Rightarrow> (HeartbeatFinished, w))"

text \<open>
  A schedule names the goroutine that makes each step: the heartbeat, or the goroutine of
  the message at a position of the batch. The steps of the heartbeat and of the fan-out
  interleave in the order of the schedule; a turn of a goroutine that is finished, or that
  does not exist, is no step.
\<close>

datatype turn = HeartbeatTurn | WorkerTurn nat

fun run ::
  "collab \<Rightarrow> message_get_outstanding_params \<Rightarrow> int \<Rightarrow> turn list \<Rightarrow> heartbeat
     \<Rightarrow> goroutine list \<Rightarrow> message list \<Rightarrow> world
     \<Rightarrow> heartbeat \<times> goroutine list \<times> message list \<times> world" where
  "run env params quantity [] h gs results w = (h, gs, results, w)"
| "run env params quantity (HeartbeatTurn # schedule) h gs results w =
     (case beat env quantity params h w of
        (h1, w1) \<Rightarrow> run env params quantity schedule h1 gs results w1)"
| "run env params quantity (WorkerTurn i # schedule) h gs results w =
     (if i < length gs
      then (case advance env (go_Source params) (gs ! i) results w of
              (g, results1, w1) \<Rightarrow>
                run env params quantity schedule h (gs[i := g]) results1 w1)
      else run env params quantity schedule h gs results w)"

text \<open>
  The turns that take every goroutine that is still running to its end: two for the
  heartbeat, three for each goroutine of the fan-out.
\<close>

definition toTheEnd :: "nat \<Rightarrow> turn list" where
  "toTheEnd n =
     HeartbeatTurn # HeartbeatTurn
       # concat (map (\<lambda>i. [WorkerTurn i, WorkerTurn i, WorkerTurn i]) [0..<n])"

text \<open>
  \<^verbatim>\<open>GetOutstanding\<close> under a schedule. The goroutines make their steps in the order of the
  schedule, and whatever is still running after it runs to its end: each goroutine
  finishes, as none of its calls blocks for ever. The results are those of the fan-out once
  all its goroutines are finished, which is when \<^verbatim>\<open>wg.Wait()\<close> returns; the world is the
  one in which the heartbeat has finished too, before that moment or after it.
\<close>

definition GetOutstanding_scheduled ::
  "collab \<Rightarrow> turn list \<Rightarrow> message_get_outstanding_params \<Rightarrow> world
     \<Rightarrow> (error + message list) \<times> world" where
  "GetOutstanding_scheduled env schedule params w =
     (case repository_GetOutstanding env (go_UserID params) (go_Owner params)
             (go_Limit params) w of
        (Inl err, w1) \<Rightarrow>
          (Inl (Propagate err (CouldNotFetchOutstanding (go_Limit params))), w1)
      | (Inr messages, w1) \<Rightarrow>
          (case run env params (int (length messages))
                  (schedule @ toTheEnd (length messages))
                  HeartbeatStarted (map Started messages) [] w1 of
             (h, gs, results, w2) \<Rightarrow> (Inr results, w2)))"

text \<open>
  What the environment has answered between two worlds, and what the service has called.
  Of the answers, \<open>reloaded\<close> are the messages that the reloads returned; \<open>failedStep\<close> holds
  of the failures of the three steps of the fan-out: an event for a message that could not
  be built, one that could not be dispatched, a message that could not be reloaded.
  \<open>builtHeartbeat\<close> and \<open>dispatchedHeartbeat\<close> hold of the answers to the heartbeat.
\<close>

definition answersSince :: "world \<Rightarrow> world \<Rightarrow> answer list" where
  "answersSince w w1 = drop (length (answers w)) (answers w1)"

definition callsSince :: "world \<Rightarrow> world \<Rightarrow> call list" where
  "callsSince w w1 = drop (length (trace w)) (trace w1)"

fun reloaded :: "answer list \<Rightarrow> message list" where
  "reloaded [] = []"
| "reloaded (LoadAnswer userID messageID (Inr m) # as) = m # reloaded as"
| "reloaded (a # as) = reloaded as"

fun failedStep :: "answer \<Rightarrow> bool" where
  "failedStep (SetDataAnswer (MessagePhoneSendingPayload i ow c u x) (Some err)) = True"
| "failedStep (DispatchAnswer event (Some err)) = (ev_Type event = EventTypeMessagePhoneSending)"
| "failedStep (LoadAnswer userID messageID (Inl err)) = True"
| "failedStep a = False"

fun builtHeartbeat :: "answer \<Rightarrow> bool" where
  "builtHeartbeat (SetDataAnswer (HeartbeatPhoneOutstandingPayload ow t q) r) = True"
| "builtHeartbeat a = False"

fun dispatchedHeartbeat :: "answer \<Rightarrow> bool" where
  "dispatchedHeartbeat (DispatchAnswer event r)
     = (ev_Type event = EventTypeHeartbeatPhoneOutstanding)"
| "dispatchedHeartbeat a = False"

text \<open>
  For the proofs: the goroutines that are still running, the events a goroutine may hold,
  and the error that \<^verbatim>\<open>registerHeartbeatEvent\<close> owes the log for a failure of the
  heartbeat.
\<close>

definition unfinished :: "goroutine list \<Rightarrow> nat" where
  "unfinished gs = length (filter (\<lambda>g. g \<noteq> Finished) gs)"

fun sending :: "goroutine \<Rightarrow> bool" where
  "sending (Built m event) = (ev_Type event = EventTypeMessagePhoneSending)"
| "sending g = True"

fun beating :: "heartbeat \<Rightarrow> bool" where
  "beating (HeartbeatBuilt event) = (ev_Type event = EventTypeHeartbeatPhoneOutstanding)"
| "beating h = True"

fun toBuild :: "heartbeat \<Rightarrow> nat" where
  "toBuild HeartbeatStarted = 1"
| "toBuild h = 0"

fun toDispatch :: "heartbeat \<Rightarrow> nat" where
  "toDispatch HeartbeatFinished = 0"
| "toDispatch h = 1"

fun owed :: "string \<Rightarrow> answer \<Rightarrow> call option" where
  "owed owner (SetDataAnswer (HeartbeatPhoneOutstandingPayload ow t q) (Some err)) =
     Some (LogError (Propagate
             (Propagate err (CannotEncodeAsJSON (HeartbeatPhoneOutstandingPayload ow t q)))
             (CannotCreateEventForOwner EventTypeHeartbeatPhoneOutstanding owner)))"
| "owed owner (DispatchAnswer event (Some err)) =
     (if ev_Type event = EventTypeHeartbeatPhoneOutstanding
      then Some (LogError (Propagate err
                   (CannotDispatchEvent EventTypeHeartbeatPhoneOutstanding (ev_ID event))))
      else None)"
| "owed owner a = None"

subsection \<open>ReceiveMessage and SendMessage\<close>

record message_receive_params =
  rp_Contact :: string
  rp_UserID :: user_id
  rp_Owner :: phone_number
  rp_Content :: string
  rp_Timestamp :: time
  rp_Source :: string

definition ReceiveMessage ::
  "collab \<Rightarrow> message_receive_params \<Rightarrow> world \<Rightarrow> (error + message) \<times> world" where
  "ReceiveMessage env params w =
     (case uuid_New env w of (payloadID, w0) \<Rightarrow>
      case createMessagePhoneReceivedEvent env (rp_Source params)
             (MessagePhoneReceivedPayload payloadID (formatE164 env (rp_Owner params))
                (rp_Contact params) (rp_Timestamp params) (rp_Content params)) w0 of
        ((event, Some err), w1) \<Rightarrow>
          (Inl (Propagate err (CannotCreateFromPayload payloadID)), w1)
      | ((event, None), w1) \<Rightarrow>
          (case Dispatch env event w1 of
             (Some err, w2) \<Rightarrow>
               (Inl (Propagate err (CannotDispatchEvent (ev_Type event) (ev_ID event))), w2)
           | (None, w2) \<Rightarrow>
               (case Load env (rp_UserID params) payloadID w2 of
                  (Inl err, w3) \<Rightarrow>
                    (Inl (Propagate err (CannotLoadInUserRepository payloadID)), w3)
                | (Inr m, w3) \<Rightarrow> (Inr m, w3))))"

record message_send_params =
  sp_Owner :: phone_number
  sp_Contact :: phone_number
  sp_Content :: string
  sp_Source :: string
  sp_UserID :: user_id
  sp_RequestReceivedAt :: time

definition SendMessage ::
  "collab \<Rightarrow> message_send_params \<Rightarrow> world \<Rightarrow> (error + message) \<times> world" where
  "SendMessage env params w =
     (case uuid_New env w of (payloadID, w0) \<Rightarrow>
      case createMessageAPISentEvent env (sp_Source params)
             (MessageAPISentPayload payloadID (sp_UserID params)
                (formatE164 env (sp_Owner params)) (formatE164 env (sp_Contact params))
                (sp_RequestReceivedAt params) (sp_Content params)) w0 of
        ((event, Some err), w1) \<Rightarrow>
          (Inl (Propagate err (CannotCreateFromPayload payloadID)), w1)
      | ((event, None), w1) \<Rightarrow>
          (case Dispatch env event w1 of
             (Some err, w2) \<Rightarrow>
               (Inl (Propagate err (CannotDispatchEvent (ev_Type event) (ev_ID event))), w2)
           | (None, w2) \<Rightarrow>
               (case Load env (sp_UserID params) payloadID w2 of
                  (Inl err, w3) \<Rightarrow>
                    (Inl (Propagate err (CannotLoadInUserRepository payloadID)), w3)
                | (Inr m, w3) \<Rightarrow> (Inr m, w3))))"

subsection \<open>StoreSentMessage and StoreReceivedMessage\<close>

record message_store_params =
  st_Owner :: string
  st_Contact :: string
  st_Content :: string
  st_UserID :: user_id
  st_ID :: uuid
  st_Timestamp :: time

text \<open>
  A field that the composite literal does not name has the zero value of its type: the empty
  string for \<open>UserID\<close> in \<^verbatim>\<open>StoreSentMessage\<close>, \<^verbatim>\<open>nil\<close> for the pointers.
\<close>

definition StoreSentMessage ::
  "collab \<Rightarrow> message_store_params \<Rightarrow> world \<Rightarrow> (error + message) \<times> world" where
  "StoreSentMessage env params w =
     (case time_Now env w of (createdAt, w0) \<Rightarrow>
      case time_Now env w0 of (updatedAt, w1) \<Rightarrow>
        (let m = \<lparr>ID = st_ID params,
                  Owner = st_Owner params,
                  UserID = [],
                  Contact = st_Contact params,
                  Content = st_Content params,
                  Type = MessageTypeMobileTerminated,
                  Status = MessageStatusPending,
                  RequestReceivedAt = st_Timestamp params,
                  CreatedAt = createdAt,
                  UpdatedAt = updatedAt,
                  OrderTimestamp = st_Timestamp params,
                  SendDuration = None,
                  LastAttemptedAt = None,
                  SentAt = None,
                  ReceivedAt = None,
                  FailedAt = None\<rparr>
         in case Store env m w1 of
              (Some err, w2) \<Rightarrow> (Inl (Propagate err (CannotSaveMessage (st_ID params))), w2)
            | (None, w2) \<Rightarrow> (Inr m, w2)))"

definition StoreReceivedMessage ::
  "collab \<Rightarrow> message_store_params \<Rightarrow> world \<Rightarrow> (error + message) \<times> world" where
  "StoreReceivedMessage env params w =
     (case time_Now env w of (createdAt, w0) \<Rightarrow>
      case time_Now env w0 of (updatedAt, w1) \<Rightarrow>
        (let m = \<lparr>ID = st_ID params,
                  Owner = st_Owner params,
                  UserID = st_UserID params,
                  Contact = st_Contact params,
                  Content = st_Content params,
                  Type = MessageTypeMobileOriginated,
                  Status = MessageStatusReceived,
                  RequestReceivedAt = st_Timestamp params,
                  CreatedAt = createdAt,
                  UpdatedAt = updatedAt,
                  OrderTimestamp = st_Timestamp params,
                  SendDuration = None,
                  LastAttemptedAt = None,
                  SentAt = None,
                  ReceivedAt = Some (st_Timestamp params),
                  FailedAt = None\<rparr>
         in case Store env m w1 of
              (Some err, w2) \<Rightarrow> (Inl (Propagate err (CannotSaveMessage (st_ID params))), w2)
            | (None, w2) \<Rightarrow> (Inr m, w2)))"

section \<open>The request of a message thread update\<close>

text \<open>
  \<^verbatim>\<open>ToUpdateParams\<close> has no error result: it returns the parameters, or panics.
  \<^verbatim>\<open>uuid.MustParse\<close> panics with the error of \<^verbatim>\<open>uuid.Parse\<close>, which belongs to the
  library \<^verbatim>\<open>github.com/google/uuid\<close> and is a parameter here.
\<close>

datatype 'a outcome = Returned 'a | Panicked error

record message_thread_update =
  IsArchived :: bool
  MessageThreadID :: string

record message_thread_status_params =
  ts_UserID :: user_id
  ts_MessageThreadID :: uuid
  ts_IsArchived :: bool

definition uuid_MustParse :: "(string \<Rightarrow> error + uuid) \<Rightarrow> string \<Rightarrow> uuid outcome" where
  "uuid_MustParse uuid_Parse s =
     (case uuid_Parse s of Inl err \<Rightarrow> Panicked err | Inr u \<Rightarrow> Returned u)"

definition ToUpdateParams ::
  "(string \<Rightarrow> error + uuid) \<Rightarrow> message_thread_update \<Rightarrow> user_id
     \<Rightarrow> message_thread_status_params outcome" where
  "ToUpdateParams uuid_Parse input userID =
     (case uuid_MustParse uuid_Parse (MessageThreadID input) of
        Panicked err \<Rightarrow> Panicked err
      | Returned u \<Rightarrow>
          Returned \<lparr>ts_UserID = userID, ts_MessageThreadID = u,
                    ts_IsArchived = IsArchived input\<rparr>)"

section \<open>A reference environment\<close>

text \<open>
  The theorems below hold for every environment. Where one is needed at a concrete input, it
  is this one: a repository that never fails and answers \<^verbatim>\<open>GetOutstanding\<close> with the first
  \<open>limit\<close> messages of a given batch, an event bus that accepts every event and has no
  subscriber, a clock and a UUID source that count, and the JSON encoder of Go, for which
  \<^verbatim>\<open>time.Time\<close> has no encoding unless its year is within 0 and 9999.
\<close>

definition marshals :: "time \<Rightarrow> bool" where
  "marshals t = (- 62167219200 * 1000000000 \<le> t \<and> t < 253402300800 * 1000000000)"

fun payload_times :: "payload \<Rightarrow> time list" where
  "payload_times (MessageAPISentPayload i u ow c t x) = [t]"
| "payload_times (MessagePhoneReceivedPayload i ow c t x) = [t]"
| "payload_times (MessagePhoneSendingPayload i ow c u x) = []"
| "payload_times (MessagePhoneSentPayload i ow u t c x) = [t]"
| "payload_times (MessagePhoneDeliveredPayload i ow t c x) = [t]"
| "payload_times (MessagePhoneFailedPayload i ow t c u x) = [t]"
| "payload_times (HeartbeatPhoneOutstandingPayload ow t q) = [t]"

definition json_SetData :: "payload \<Rightarrow> error option" where
  "json_SetData pl = (if list_all marshals (payload_times pl) then None else Some (External 0))"

definition inMemory :: "message list \<Rightarrow> collab" where
  "inMemory batch =
     \<lparr>loadFault = (\<lambda>n userID messageID. None),
      storeFault = (\<lambda>n m. None),
      updateFault = (\<lambda>n m. None),
      fetchOutstanding = (\<lambda>n s userID owner limit. (Inr (take (nat limit) batch), s)),
      setData = (\<lambda>n. json_SetData),
      publish = (\<lambda>n event s. (None, s)),
      clock = int,
      uuids = (\<lambda>n. n),
      formatE164 = (\<lambda>p. ''+'')\<rparr>"

definition blank :: world where
  "blank = \<lparr>store = Map.empty, trace = [], tick = 0, answers = []\<rparr>"

text \<open>A parser of the canonical form of a UUID: 36 characters, hyphens at 8, 13, 18 and 23.\<close>

definition xtob :: "char \<Rightarrow> nat option" where
  "xtob c =
     (let n = (of_char c :: nat) in
      if 48 \<le> n \<and> n \<le> 57 then Some (n - 48)
      else if 97 \<le> n \<and> n \<le> 102 then Some (n - 87)
      else if 65 \<le> n \<and> n \<le> 70 then Some (n - 55)
      else None)"

fun hex_value :: "nat \<Rightarrow> string \<Rightarrow> nat option" where
  "hex_value acc [] = Some acc"
| "hex_value acc (c # cs) =
     (case xtob c of None \<Rightarrow> None | Some d \<Rightarrow> hex_value (16 * acc + d) cs)"

definition canonical_Parse :: "string \<Rightarrow> error + uuid" where
  "canonical_Parse s =
     (if length s \<noteq> 36 then Inl (External (length s))
      else if s ! 8 \<noteq> CHR ''-'' \<or> s ! 13 \<noteq> CHR ''-'' \<or> s ! 18 \<noteq> CHR ''-'' \<or> s ! 23 \<noteq> CHR ''-''
      then Inl (External 36)
      else (case hex_value 0 (take 8 s @ take 4 (drop 9 s) @ take 4 (drop 14 s)
                               @ take 4 (drop 19 s) @ drop 24 s) of
              None \<Rightarrow> Inl (External 36)
            | Some u \<Rightarrow> Inr u))"

text \<open>A message of a given status, and the world whose repository holds one message.\<close>

definition sample :: "message_status \<Rightarrow> message" where
  "sample s =
     \<lparr>ID = 7, Owner = ''+18005550100'', UserID = ''user-1'', Contact = ''+18005550199'',
      Content = ''hello'', Type = MessageTypeMobileTerminated, Status = s,
      RequestReceivedAt = 10, CreatedAt = 11, UpdatedAt = 12, OrderTimestamp = 10,
      SendDuration = None, LastAttemptedAt = None, SentAt = None, ReceivedAt = None,
      FailedAt = None\<rparr>"

definition holding :: "message \<Rightarrow> world" where
  "holding m = \<lparr>store = [ID m \<mapsto> m], trace = [], tick = 0, answers = []\<rparr>"

text \<open>A batch of two messages, and a request for the outstanding messages at a time \<open>t\<close>.\<close>

definition twoOutstanding :: "message list" where
  "twoOutstanding = [sample MessageStatusPending, (sample MessageStatusPending)\<lparr>ID := 8\<rparr>]"

definition poll :: "time \<Rightarrow> message_get_outstanding_params" where
  "poll t = \<lparr>go_Source = ''phone'', go_Owner = ''+18005550100'', go_UserID = ''user-1'',
             go_Timestamp = t, go_Limit = 10\<rparr>"

text \<open>
  An event bus that refuses the heartbeat, and a schedule for a batch of two messages in
  which the steps of the goroutines interleave and the heartbeat is dispatched last.
\<close>

definition unheard :: "message list \<Rightarrow> collab" where
  "unheard batch =
     (inMemory batch)
       \<lparr>publish := (\<lambda>n event s.
          (if ev_Type event = EventTypeHeartbeatPhoneOutstanding then Some (External 9)
           else None, s))\<rparr>"

definition mixed :: "turn list" where
  "mixed = [WorkerTurn 0, HeartbeatTurn, WorkerTurn (Suc 0), WorkerTurn (Suc 0), WorkerTurn 0,
            WorkerTurn (Suc 0), WorkerTurn 0]"

section \<open>Properties\<close>

subsection \<open>The collaborators\<close>

lemma dispatched_append: "dispatched (cs @ ds) = dispatched cs @ dispatched ds"
  by (induction cs rule: dispatched.induct) simp_all

lemma updated_append: "updated (cs @ ds) = updated cs @ updated ds"
  by (induction cs rule: updated.induct) simp_all

lemma logged_append: "logged (cs @ ds) = logged cs @ logged ds"
  by (induction cs rule: logged.induct) simp_all

lemma Load_world:
  "snd (Load env userID messageID w)
     = answered (LoadAnswer userID messageID (fst (Load env userID messageID w)))
         (called (CallLoad userID messageID) w)"
  by (simp add: Load_def Let_def)

lemma Load_Inr:
  "fst (Load env userID messageID w) = Inr m \<Longrightarrow> store w messageID = Some m \<and> UserID m = userID"
  by (simp add: Load_def Let_def split: option.splits if_splits)

lemma createEvent_eq:
  "createEvent env eventType source pl w =
     ((\<lparr>ev_Source = source, ev_Type = eventType, ev_Time = clock env (tick w),
        ev_ID = uuids env (Suc (tick w)),
        ev_Data = (case setData env (Suc (Suc (tick w))) pl of
                     Some err \<Rightarrow> None | None \<Rightarrow> Some pl)\<rparr>,
       (case setData env (Suc (Suc (tick w))) pl of
          Some err \<Rightarrow> Some (Propagate err (CannotEncodeAsJSON pl)) | None \<Rightarrow> None)),
      w\<lparr>tick := Suc (Suc (tick w)),
        answers := answers w @ [SetDataAnswer pl (setData env (Suc (Suc (tick w))) pl)]\<rparr>)"
  by (simp add: createEvent_def time_Now_def uuid_New_def SetData_def answered_def Let_def
      split: option.splits)

lemma Dispatch_world:
  "trace (snd (Dispatch env event w)) = trace w @ [CallDispatch event]
   \<and> tick (snd (Dispatch env event w)) = Suc (tick w)"
  by (simp add: Dispatch_def Let_def called_def answered_def split: prod.splits)


lemma Load_trace:
  "trace (snd (Load env userID messageID w)) = trace w @ [CallLoad userID messageID]"
  by (simp add: Load_world called_def answered_def)


subsection \<open>The transitions\<close>

text \<open>
  C3. When the message that \<^verbatim>\<open>HandleMessageSent\<close> loads has a status other than
  \<open>Sending\<close>, the call fails with the error made from the actual status and the expected
  one, the repository holds what it held, and the only call made is the \<open>Load\<close>: no
  \<open>Update\<close>, no \<open>Dispatch\<close>.
\<close>

theorem HandleMessageSent_wrong_status:
  assumes "fst (Load env (hm_UserID params) (hm_ID params) w) = Inr m"
    and "Status m \<noteq> MessageStatusSending"
  shows "fst (HandleMessageSent env params w)
           = Some (NewError (WrongStatus (Status m) [MessageStatusSending]))
       \<and> store (snd (HandleMessageSent env params w)) = store w
       \<and> trace (snd (HandleMessageSent env params w))
           = trace w @ [CallLoad (hm_UserID params) (hm_ID params)]
       \<and> updated (trace (snd (HandleMessageSent env params w))) = updated (trace w)
       \<and> dispatched (trace (snd (HandleMessageSent env params w))) = dispatched (trace w)"
  using assms
  by (auto simp add: HandleMessageSent_def Load_def Let_def called_def answered_def
        IsSending_def updated_append dispatched_append
      split: option.splits if_splits)

theorem HandleMessageSent_wrong_status_witness:
  "fst (Load (inMemory []) ''user-1'' 7 (holding (sample MessageStatusPending)))
     = Inr (sample MessageStatusPending)
   \<and> Status (sample MessageStatusPending) \<noteq> MessageStatusSending
   \<and> fst (HandleMessageSent (inMemory [])
            \<lparr>hm_ID = 7, hm_UserID = ''user-1'', hm_Timestamp = 20\<rparr>
            (holding (sample MessageStatusPending)))
       = Some (NewError (WrongStatus MessageStatusPending [MessageStatusSending]))
   \<and> trace (snd (HandleMessageSent (inMemory [])
                    \<lparr>hm_ID = 7, hm_UserID = ''user-1'', hm_Timestamp = 20\<rparr>
                    (holding (sample MessageStatusPending))))
       = [CallLoad ''user-1'' 7]"
proof -
  have l: "fst (Load (inMemory [])
                  (hm_UserID \<lparr>hm_ID = 7, hm_UserID = ''user-1'', hm_Timestamp = 20\<rparr>)
                  (hm_ID \<lparr>hm_ID = 7, hm_UserID = ''user-1'', hm_Timestamp = 20\<rparr>)
                  (holding (sample MessageStatusPending)))
             = Inr (sample MessageStatusPending)"
    by (simp add: Load_def Let_def inMemory_def holding_def sample_def)
  have s: "Status (sample MessageStatusPending) \<noteq> MessageStatusSending"
    by (simp add: sample_def)
  from HandleMessageSent_wrong_status [OF l s] l s show ?thesis
    by (simp add: holding_def sample_def)
qed

text \<open>
  C4. When the message that \<^verbatim>\<open>HandleMessageFailed\<close> loads has the status \<open>Sending\<close> or
  \<open>Sent\<close> and the repository accepts the update, the call succeeds and the repository holds
  the failed message; when the status is \<open>Pending\<close>, \<open>Delivered\<close> or \<open>Received\<close>, the call
  fails with the error made from the actual status and the two expected ones, and nothing is
  persisted.
\<close>

theorem HandleMessageFailed_transition:
  assumes "fst (Load env (hm_UserID params) (hm_ID params) w) = Inr m"
  shows "(Status m \<in> {MessageStatusSending, MessageStatusSent}
            \<and> fst (Update env (Failed (hm_Timestamp params) m)
                     (snd (Load env (hm_UserID params) (hm_ID params) w))) = None
          \<longrightarrow> fst (HandleMessageFailed env params w) = None
              \<and> store (snd (HandleMessageFailed env params w)) (ID m)
                  = Some (Failed (hm_Timestamp params) m)
              \<and> updated (trace (snd (HandleMessageFailed env params w)))
                  = updated (trace w) @ [Failed (hm_Timestamp params) m])
       \<and> (Status m \<in> {MessageStatusPending, MessageStatusDelivered, MessageStatusReceived}
          \<longrightarrow> fst (HandleMessageFailed env params w)
                = Some (NewError (WrongStatus (Status m)
                                    [MessageStatusSending, MessageStatusSent]))
              \<and> store (snd (HandleMessageFailed env params w)) = store w
              \<and> updated (trace (snd (HandleMessageFailed env params w))) = updated (trace w))"
  using assms
  by (auto simp add: HandleMessageFailed_def Load_def Let_def Update_def Let_def called_def answered_def
        IsSending_def IsSent_def Failed_def updated_append
      split: option.splits if_splits)

theorem HandleMessageFailed_transition_witness:
  "fst (HandleMessageFailed (inMemory [])
          \<lparr>hm_ID = 7, hm_UserID = ''user-1'', hm_Timestamp = 20\<rparr>
          (holding (sample MessageStatusSent))) = None
   \<and> store (snd (HandleMessageFailed (inMemory [])
                   \<lparr>hm_ID = 7, hm_UserID = ''user-1'', hm_Timestamp = 20\<rparr>
                   (holding (sample MessageStatusSent)))) 7
       = Some ((sample MessageStatusFailed)\<lparr>FailedAt := Some 20\<rparr>)
   \<and> fst (HandleMessageFailed (inMemory [])
            \<lparr>hm_ID = 7, hm_UserID = ''user-1'', hm_Timestamp = 20\<rparr>
            (holding (sample MessageStatusDelivered)))
       = Some (NewError (WrongStatus MessageStatusDelivered
                           [MessageStatusSending, MessageStatusSent]))
   \<and> store (snd (HandleMessageFailed (inMemory [])
                   \<lparr>hm_ID = 7, hm_UserID = ''user-1'', hm_Timestamp = 20\<rparr>
                   (holding (sample MessageStatusDelivered))))
       = store (holding (sample MessageStatusDelivered))"
proof -
  let ?p = "\<lparr>hm_ID = 7, hm_UserID = ''user-1'', hm_Timestamp = 20\<rparr>"
  have l: "fst (Load (inMemory []) (hm_UserID ?p) (hm_ID ?p) (holding (sample s))) = Inr (sample s)"
    for s
    by (simp add: Load_def Let_def inMemory_def holding_def sample_def)
  have u: "fst (Update (inMemory []) (Failed (hm_Timestamp ?p) (sample MessageStatusSent))
                 (snd (Load (inMemory []) (hm_UserID ?p) (hm_ID ?p)
                         (holding (sample MessageStatusSent))))) = None"
    by (simp add: Update_def Let_def inMemory_def)
  from HandleMessageFailed_transition [OF l [of MessageStatusSent]]
       HandleMessageFailed_transition [OF l [of MessageStatusDelivered]] u
  show ?thesis
    by (simp add: sample_def Failed_def)
qed

text \<open>
  C7, as amended. Each of \<^verbatim>\<open>HandleMessageSending\<close>, \<^verbatim>\<open>HandleMessageSent\<close>,
  \<^verbatim>\<open>HandleMessageFailed\<close> and \<^verbatim>\<open>HandleMessageDelivered\<close> loads, guards and persists, and
  never dispatches: the calls it makes are the \<open>Load\<close>, followed by one \<open>Update\<close> of the
  mutated message when the guard holds. Its only result is an error value: the wrapped
  error of the \<open>Load\<close>; the transition error when the guard fails; the wrapped error of the
  \<open>Update\<close> when the repository refuses it; and \<^verbatim>\<open>nil\<close> when the repository accepts it, in
  which case the repository holds the updated record.
\<close>

theorem HandleMessage_load_guard_persist:
  "\<forall>(handle, guard, expected, mutate, wrap) \<in> set
      [(HandleMessageSending, IsSending, [MessageStatusSending], AddSendAttempt,
          CannotUpdateAfterSending),
       (HandleMessageSent, IsSending, [MessageStatusSending], Sent, CannotUpdateAsSent),
       (HandleMessageFailed, (\<lambda>m. IsSent m \<or> IsSending m),
          [MessageStatusSending, MessageStatusSent], Failed, CannotUpdateAsSent),
       (HandleMessageDelivered, IsSent, [MessageStatusSent], Delivered, CannotUpdateAsSent)].
     (let r = handle env params w;
          l = CallLoad (hm_UserID params) (hm_ID params);
          loaded = Load env (hm_UserID params) (hm_ID params) w
      in dispatched (trace (snd r)) = dispatched (trace w)
         \<and> (case fst loaded of
              Inl err \<Rightarrow>
                fst r = Some (Propagate err (CannotFindMessage (hm_ID params)))
                \<and> trace (snd r) = trace w @ [l] \<and> store (snd r) = store w
            | Inr m \<Rightarrow>
                if \<not> guard m
                then fst r = Some (NewError (WrongStatus (Status m) expected))
                     \<and> trace (snd r) = trace w @ [l] \<and> store (snd r) = store w
                else trace (snd r) = trace w @ [l, CallUpdate (mutate (hm_Timestamp params) m)]
                     \<and> (case fst (Update env (mutate (hm_Timestamp params) m) (snd loaded)) of
                          None \<Rightarrow>
                            fst r = None
                            \<and> store (snd r)
                                = (store w)(ID m \<mapsto> mutate (hm_Timestamp params) m)
                        | Some err \<Rightarrow>
                            fst r = Some (Propagate err (wrap (ID m)))
                            \<and> store (snd r) = store w)))"
  by (auto simp add: HandleMessageSending_def HandleMessageSent_def HandleMessageFailed_def
        HandleMessageDelivered_def Load_def Update_def Let_def called_def answered_def
        AddSendAttempt_def Sent_def Failed_def Delivered_def dispatched_append
      split: option.splits sum.splits if_splits)

theorem HandleMessage_load_guard_persist_witness:
  "fst (Load (inMemory []) ''user-1'' 7 (holding (sample MessageStatusSending)))
     = Inr (sample MessageStatusSending)
   \<and> fst (Update (inMemory []) (Sent 20 (sample MessageStatusSending))
            (snd (Load (inMemory []) ''user-1'' 7 (holding (sample MessageStatusSending)))))
       = None
   \<and> fst (HandleMessageSent (inMemory [])
            \<lparr>hm_ID = 7, hm_UserID = ''user-1'', hm_Timestamp = 20\<rparr>
            (holding (sample MessageStatusSending))) = None
   \<and> trace (snd (HandleMessageSent (inMemory [])
                    \<lparr>hm_ID = 7, hm_UserID = ''user-1'', hm_Timestamp = 20\<rparr>
                    (holding (sample MessageStatusSending))))
       = [CallLoad ''user-1'' 7, CallUpdate (Sent 20 (sample MessageStatusSending))]
   \<and> store (snd (HandleMessageSent (inMemory [])
                    \<lparr>hm_ID = 7, hm_UserID = ''user-1'', hm_Timestamp = 20\<rparr>
                    (holding (sample MessageStatusSending)))) 7
       = Some (Sent 20 (sample MessageStatusSending))
   \<and> fst (HandleMessageSent
            ((inMemory [])\<lparr>updateFault := (\<lambda>n m. Some (External 5))\<rparr>)
            \<lparr>hm_ID = 7, hm_UserID = ''user-1'', hm_Timestamp = 20\<rparr>
            (holding (sample MessageStatusSending)))
       = Some (Propagate (External 5) (CannotUpdateAsSent 7))
   \<and> fst (HandleMessageDelivered (inMemory [])
            \<lparr>hm_ID = 7, hm_UserID = ''user-1'', hm_Timestamp = 20\<rparr>
            (holding (sample MessageStatusSending)))
       = Some (NewError (WrongStatus MessageStatusSending [MessageStatusSent]))
   \<and> trace (snd (HandleMessageDelivered (inMemory [])
                    \<lparr>hm_ID = 7, hm_UserID = ''user-1'', hm_Timestamp = 20\<rparr>
                    (holding (sample MessageStatusSending))))
       = [CallLoad ''user-1'' 7]"
proof -
  let ?p = "\<lparr>hm_ID = 7, hm_UserID = ''user-1'', hm_Timestamp = 20\<rparr>"
  let ?w = "holding (sample MessageStatusSending)"
  let ?refusing = "(inMemory [])\<lparr>updateFault := (\<lambda>n m. Some (External 5))\<rparr>"
  have l: "fst (Load (inMemory []) (hm_UserID ?p) (hm_ID ?p) ?w) = Inr (sample MessageStatusSending)"
    by (simp add: Load_def Let_def inMemory_def holding_def sample_def)
  have l2: "fst (Load ?refusing (hm_UserID ?p) (hm_ID ?p) ?w) = Inr (sample MessageStatusSending)"
    by (simp add: Load_def Let_def inMemory_def holding_def sample_def)
  have u: "fst (Update (inMemory []) (Sent (hm_Timestamp ?p) (sample MessageStatusSending))
                 (snd (Load (inMemory []) (hm_UserID ?p) (hm_ID ?p) ?w))) = None"
    by (simp add: Update_def Let_def inMemory_def)
  have u2: "fst (Update ?refusing (Sent (hm_Timestamp ?p) (sample MessageStatusSending))
                  (snd (Load ?refusing (hm_UserID ?p) (hm_ID ?p) ?w))) = Some (External 5)"
    by (simp add: Update_def Let_def inMemory_def)
  have g: "IsSending (sample MessageStatusSending) \<and> \<not> IsSent (sample MessageStatusSending)
           \<and> ID (sample MessageStatusSending) = 7 \<and> trace ?w = []
           \<and> Status (sample MessageStatusSending) = MessageStatusSending"
    by (simp add: IsSending_def IsSent_def sample_def holding_def)
  from HandleMessage_load_guard_persist [of "inMemory []" ?p ?w]
       HandleMessage_load_guard_persist [of ?refusing ?p ?w] l l2 u u2 g
  show ?thesis
    by (simp add: Let_def)
qed

text \<open>
  C7 as stated fails on the result: a successful \<^verbatim>\<open>HandleMessageSending\<close> returns
  \<^verbatim>\<open>nil\<close> and nothing else; the updated record is in the repository only.
\<close>

theorem HandleMessageSending_returns_nil:
  "HandleMessageSending (inMemory []) \<lparr>hm_ID = 7, hm_UserID = ''user-1'', hm_Timestamp = 20\<rparr>
     (holding (sample MessageStatusSending))
   = (None,
      \<lparr>store = [7 \<mapsto> (sample MessageStatusSending)\<lparr>LastAttemptedAt := Some 20\<rparr>],
       trace = [CallLoad ''user-1'' 7,
                CallUpdate ((sample MessageStatusSending)\<lparr>LastAttemptedAt := Some 20\<rparr>)],
       tick = 2,
       answers = [LoadAnswer ''user-1'' 7 (Inr (sample MessageStatusSending)),
                  UpdateAnswer ((sample MessageStatusSending)\<lparr>LastAttemptedAt := Some 20\<rparr>)
                    None]\<rparr>)"
  by (simp add: HandleMessageSending_def Load_def Let_def Update_def inMemory_def holding_def sample_def
        called_def answered_def IsSending_def AddSendAttempt_def Let_def)

subsection \<open>StoreEvent\<close>

lemma handleMessageSentEvent_dispatched:
  "dispatched (trace (snd (handleMessageSentEvent env params m w)))
     = dispatched (trace w)
         @ (case setData env (Suc (Suc (tick w)))
                   (MessagePhoneSentPayload (ID m) (Owner m) (UserID m) (pe_Timestamp params)
                      (Contact m) (Content m)) of
              Some err \<Rightarrow> []
            | None \<Rightarrow>
                [\<lparr>ev_Source = pe_Source params, ev_Type = EventTypeMessagePhoneSent,
                  ev_Time = clock env (tick w), ev_ID = uuids env (Suc (tick w)),
                  ev_Data = Some (MessagePhoneSentPayload (ID m) (Owner m) (UserID m)
                                    (pe_Timestamp params) (Contact m) (Content m))\<rparr>])"
  by (auto simp add: handleMessageSentEvent_def createMessagePhoneSentEvent_def createEvent_eq
        Dispatch_def Let_def called_def answered_def dispatched_append
      split: option.splits prod.splits)

lemma handleMessageSentEvent_encoding:
  "setData env (Suc (Suc (tick w)))
     (MessagePhoneSentPayload (ID m) (Owner m) (UserID m) (pe_Timestamp params)
        (Contact m) (Content m)) = Some err
   \<Longrightarrow> \<exists>e. fst (handleMessageSentEvent env params m w) = Some e"
  by (simp add: handleMessageSentEvent_def createMessagePhoneSentEvent_def createEvent_eq)

lemma StoreEvent_Sent:
  "pe_EventName params = MessageEventNameSent \<Longrightarrow>
   dispatched (trace (snd (StoreEvent env m params w)))
     = dispatched (trace (snd (handleMessageSentEvent env params m w)))
   \<and> ((\<exists>e. fst (handleMessageSentEvent env params m w) = Some e)
        \<longrightarrow> (\<exists>e. fst (StoreEvent env m params w) = Inl e))"
  by (cases "handleMessageSentEvent env params m w")
     (auto simp add: StoreEvent_def Load_trace dispatched_append split: option.splits)

lemma handleMessageDeliveredEvent_dispatched:
  "dispatched (trace (snd (handleMessageDeliveredEvent env params m w)))
     = dispatched (trace w)
         @ (case setData env (Suc (Suc (tick w)))
                   (MessagePhoneDeliveredPayload (ID m) (Owner m) (pe_Timestamp params)
                      (Contact m) (Content m)) of
              Some err \<Rightarrow> []
            | None \<Rightarrow>
                [\<lparr>ev_Source = pe_Source params, ev_Type = EventTypeMessagePhoneDelivered,
                  ev_Time = clock env (tick w), ev_ID = uuids env (Suc (tick w)),
                  ev_Data = Some (MessagePhoneDeliveredPayload (ID m) (Owner m) (pe_Timestamp params)
                      (Contact m) (Content m))\<rparr>])"
  by (auto simp add: handleMessageDeliveredEvent_def createMessagePhoneDeliveredEvent_def createEvent_eq
        Dispatch_def Let_def called_def answered_def dispatched_append
      split: option.splits prod.splits)

lemma handleMessageDeliveredEvent_encoding:
  "setData env (Suc (Suc (tick w)))
     (MessagePhoneDeliveredPayload (ID m) (Owner m) (pe_Timestamp params)
                      (Contact m) (Content m)) = Some err
   \<Longrightarrow> \<exists>e. fst (handleMessageDeliveredEvent env params m w) = Some e"
  by (simp add: handleMessageDeliveredEvent_def createMessagePhoneDeliveredEvent_def createEvent_eq)

lemma StoreEvent_Delivered:
  "pe_EventName params = MessageEventNameDelivered \<Longrightarrow>
   dispatched (trace (snd (StoreEvent env m params w)))
     = dispatched (trace (snd (handleMessageDeliveredEvent env params m w)))
   \<and> ((\<exists>e. fst (handleMessageDeliveredEvent env params m w) = Some e)
        \<longrightarrow> (\<exists>e. fst (StoreEvent env m params w) = Inl e))"
  by (cases "handleMessageDeliveredEvent env params m w")
     (auto simp add: StoreEvent_def Load_trace dispatched_append split: option.splits)

lemma handleMessageFailedEvent_dispatched:
  "dispatched (trace (snd (handleMessageFailedEvent env params m w)))
     = dispatched (trace w)
         @ (case setData env (Suc (Suc (tick w)))
                   (MessagePhoneFailedPayload (ID m) (Owner m) (pe_Timestamp params)
                      (Contact m) (UserID m) (Content m)) of
              Some err \<Rightarrow> []
            | None \<Rightarrow>
                [\<lparr>ev_Source = pe_Source params, ev_Type = EventTypeMessagePhoneFailed,
                  ev_Time = clock env (tick w), ev_ID = uuids env (Suc (tick w)),
                  ev_Data = Some (MessagePhoneFailedPayload (ID m) (Owner m) (pe_Timestamp params)
                      (Contact m) (UserID m) (Content m))\<rparr>])"
  by (auto simp add: handleMessageFailedEvent_def createMessagePhoneFailedEvent_def createEvent_eq
        Dispatch_def Let_def called_def answered_def dispatched_append
      split: option.splits prod.splits)

lemma handleMessageFailedEvent_encoding:
  "setData env (Suc (Suc (tick w)))
     (MessagePhoneFailedPayload (ID m) (Owner m) (pe_Timestamp params)
                      (Contact m) (UserID m) (Content m)) = Some err
   \<Longrightarrow> \<exists>e. fst (handleMessageFailedEvent env params m w) = Some e"
  by (simp add: handleMessageFailedEvent_def createMessagePhoneFailedEvent_def createEvent_eq)

lemma StoreEvent_Failed:
  "pe_EventName params = MessageEventNameFailed \<Longrightarrow>
   dispatched (trace (snd (StoreEvent env m params w)))
     = dispatched (trace (snd (handleMessageFailedEvent env params m w)))
   \<and> ((\<exists>e. fst (handleMessageFailedEvent env params m w) = Some e)
        \<longrightarrow> (\<exists>e. fst (StoreEvent env m params w) = Inl e))"
  by (cases "handleMessageFailedEvent env params m w")
     (auto simp add: StoreEvent_def Load_trace dispatched_append split: option.splits)


lemma handleEvent_Status:
  "handleMessageSentEvent env params (m\<lparr>Status := s\<rparr>) w
     = handleMessageSentEvent env params m w"
  "handleMessageDeliveredEvent env params (m\<lparr>Status := s\<rparr>) w
     = handleMessageDeliveredEvent env params m w"
  "handleMessageFailedEvent env params (m\<lparr>Status := s\<rparr>) w
     = handleMessageFailedEvent env params m w"
  by (simp_all add: handleMessageSentEvent_def handleMessageDeliveredEvent_def
        handleMessageFailedEvent_def
      cong: prod.case_cong option.case_cong)

lemma StoreEvent_Status:
  "StoreEvent env (m\<lparr>Status := s\<rparr>) params w = StoreEvent env m params w"
  by (cases "pe_EventName params")
     (simp_all add: StoreEvent_def handleEvent_Status cong: prod.case_cong option.case_cong)

text \<open>
  C2, as amended. For an event name other than \<open>Sent\<close>, \<open>Delivered\<close> and \<open>Failed\<close>,
  \<^verbatim>\<open>StoreEvent\<close> returns an error and calls nothing. For each of the three names the
  handler checks no transition guard: whatever the status of the message, it builds the
  event and dispatches it, exactly once, and when the event cannot be built the call
  returns an error and nothing is dispatched. The result of \<^verbatim>\<open>StoreEvent\<close> does not
  depend on the status of the message it is given.
\<close>

theorem StoreEvent_dispatches_without_guard:
  "(\<forall>s. pe_EventName params = MessageEventNameOther s
        \<longrightarrow> StoreEvent env m params w
              = (Inl (NewError (CannotHandleMessageEvent (MessageEventNameOther s))), w))
   \<and> (\<forall>eventType pl.
         (pe_EventName params, eventType, pl) \<in> set
           [(MessageEventNameSent, EventTypeMessagePhoneSent,
               MessagePhoneSentPayload (ID m) (Owner m) (UserID m) (pe_Timestamp params)
                 (Contact m) (Content m)),
            (MessageEventNameDelivered, EventTypeMessagePhoneDelivered,
               MessagePhoneDeliveredPayload (ID m) (Owner m) (pe_Timestamp params)
                 (Contact m) (Content m)),
            (MessageEventNameFailed, EventTypeMessagePhoneFailed,
               MessagePhoneFailedPayload (ID m) (Owner m) (pe_Timestamp params)
                 (Contact m) (UserID m) (Content m))]
         \<longrightarrow> (case setData env (Suc (Suc (tick w))) pl of
                Some err \<Rightarrow>
                  (\<exists>e. fst (StoreEvent env m params w) = Inl e)
                  \<and> dispatched (trace (snd (StoreEvent env m params w))) = dispatched (trace w)
              | None \<Rightarrow>
                  dispatched (trace (snd (StoreEvent env m params w)))
                    = dispatched (trace w)
                        @ [\<lparr>ev_Source = pe_Source params, ev_Type = eventType,
                            ev_Time = clock env (tick w), ev_ID = uuids env (Suc (tick w)),
                            ev_Data = Some pl\<rparr>]))
   \<and> (\<forall>s. dispatched (trace (snd (StoreEvent env (m\<lparr>Status := s\<rparr>) params w)))
            = dispatched (trace (snd (StoreEvent env m params w))))"
proof (intro conjI allI impI)
  fix s assume "pe_EventName params = MessageEventNameOther s"
  then show "StoreEvent env m params w
               = (Inl (NewError (CannotHandleMessageEvent (MessageEventNameOther s))), w)"
    by (simp add: StoreEvent_def)
next
  fix eventType pl
  assume "(pe_EventName params, eventType, pl) \<in> set
           [(MessageEventNameSent, EventTypeMessagePhoneSent,
               MessagePhoneSentPayload (ID m) (Owner m) (UserID m) (pe_Timestamp params)
                 (Contact m) (Content m)),
            (MessageEventNameDelivered, EventTypeMessagePhoneDelivered,
               MessagePhoneDeliveredPayload (ID m) (Owner m) (pe_Timestamp params)
                 (Contact m) (Content m)),
            (MessageEventNameFailed, EventTypeMessagePhoneFailed,
               MessagePhoneFailedPayload (ID m) (Owner m) (pe_Timestamp params)
                 (Contact m) (UserID m) (Content m))]"
  then consider
      (sent) "pe_EventName params = MessageEventNameSent"
        "eventType = EventTypeMessagePhoneSent"
        "pl = MessagePhoneSentPayload (ID m) (Owner m) (UserID m) (pe_Timestamp params)
                (Contact m) (Content m)"
    | (delivered) "pe_EventName params = MessageEventNameDelivered"
        "eventType = EventTypeMessagePhoneDelivered"
        "pl = MessagePhoneDeliveredPayload (ID m) (Owner m) (pe_Timestamp params)
                (Contact m) (Content m)"
    | (failed) "pe_EventName params = MessageEventNameFailed"
        "eventType = EventTypeMessagePhoneFailed"
        "pl = MessagePhoneFailedPayload (ID m) (Owner m) (pe_Timestamp params)
                (Contact m) (UserID m) (Content m)"
    by auto
  then show "case setData env (Suc (Suc (tick w))) pl of
                Some err \<Rightarrow>
                  (\<exists>e. fst (StoreEvent env m params w) = Inl e)
                  \<and> dispatched (trace (snd (StoreEvent env m params w))) = dispatched (trace w)
              | None \<Rightarrow>
                  dispatched (trace (snd (StoreEvent env m params w)))
                    = dispatched (trace w)
                        @ [\<lparr>ev_Source = pe_Source params, ev_Type = eventType,
                            ev_Time = clock env (tick w), ev_ID = uuids env (Suc (tick w)),
                            ev_Data = Some pl\<rparr>]"
  proof cases
    case sent
    with StoreEvent_Sent [of params env m w] handleMessageSentEvent_encoding [of env w m params]
    show ?thesis
      by (simp add: handleMessageSentEvent_dispatched split: option.splits)
  next
    case delivered
    with StoreEvent_Delivered [of params env m w]
      handleMessageDeliveredEvent_encoding [of env w m params]
    show ?thesis
      by (simp add: handleMessageDeliveredEvent_dispatched split: option.splits)
  next
    case failed
    with StoreEvent_Failed [of params env m w]
      handleMessageFailedEvent_encoding [of env w m params]
    show ?thesis
      by (simp add: handleMessageFailedEvent_dispatched split: option.splits)
  qed
next
  fix s
  show "dispatched (trace (snd (StoreEvent env (m\<lparr>Status := s\<rparr>) params w)))
          = dispatched (trace (snd (StoreEvent env m params w)))"
    by (simp add: StoreEvent_Status)
qed

theorem StoreEvent_dispatches_without_guard_witness:
  "StoreEvent (inMemory []) (sample MessageStatusPending)
     \<lparr>pe_MessageID = 7, pe_EventName = MessageEventNameOther ''message.phone.unknown'',
      pe_Timestamp = 20, pe_Source = ''phone''\<rparr>
     (holding (sample MessageStatusPending))
   = (Inl (NewError (CannotHandleMessageEvent (MessageEventNameOther ''message.phone.unknown''))),
      holding (sample MessageStatusPending))
   \<and> dispatched (trace (snd (StoreEvent (inMemory []) (sample MessageStatusPending)
        \<lparr>pe_MessageID = 7, pe_EventName = MessageEventNameDelivered,
         pe_Timestamp = 20, pe_Source = ''phone''\<rparr>
        (holding (sample MessageStatusPending)))))
     = [\<lparr>ev_Source = ''phone'', ev_Type = EventTypeMessagePhoneDelivered, ev_Time = 0, ev_ID = 1,
         ev_Data = Some (MessagePhoneDeliveredPayload 7 ''+18005550100'' 20 ''+18005550199''
                           ''hello'')\<rparr>]
   \<and> (\<exists>e. fst (StoreEvent (inMemory []) (sample MessageStatusSending)
                 \<lparr>pe_MessageID = 7, pe_EventName = MessageEventNameSent,
                  pe_Timestamp = 253402300800 * 1000000000, pe_Source = ''phone''\<rparr>
                 (holding (sample MessageStatusSending))) = Inl e)
   \<and> dispatched (trace (snd (StoreEvent (inMemory []) (sample MessageStatusSending)
        \<lparr>pe_MessageID = 7, pe_EventName = MessageEventNameSent,
         pe_Timestamp = 253402300800 * 1000000000, pe_Source = ''phone''\<rparr>
        (holding (sample MessageStatusSending))))) = []"
proof -
  let ?other = "\<lparr>pe_MessageID = 7, pe_EventName = MessageEventNameOther ''message.phone.unknown'',
                  pe_Timestamp = 20, pe_Source = ''phone''\<rparr>"
  let ?delivered = "\<lparr>pe_MessageID = 7, pe_EventName = MessageEventNameDelivered,
                      pe_Timestamp = 20, pe_Source = ''phone''\<rparr>"
  let ?sent = "\<lparr>pe_MessageID = 7, pe_EventName = MessageEventNameSent,
                 pe_Timestamp = 253402300800 * 1000000000, pe_Source = ''phone''\<rparr>"
  let ?w = "holding (sample MessageStatusPending)"
  let ?m = "sample MessageStatusPending"
  let ?v = "holding (sample MessageStatusSending)"
  let ?n = "sample MessageStatusSending"
  have a: "StoreEvent (inMemory []) ?m ?other ?w
             = (Inl (NewError (CannotHandleMessageEvent
                                 (MessageEventNameOther ''message.phone.unknown''))), ?w)"
    using StoreEvent_dispatches_without_guard [of ?other "inMemory []" ?m ?w] by simp
  have sd: "setData (inMemory []) (Suc (Suc (tick ?w)))
              (MessagePhoneDeliveredPayload (ID ?m) (Owner ?m) (pe_Timestamp ?delivered)
                 (Contact ?m) (Content ?m)) = None"
    by (simp add: inMemory_def json_SetData_def marshals_def)
  have b: "dispatched (trace (snd (StoreEvent (inMemory []) ?m ?delivered ?w)))
             = dispatched (trace ?w)
                 @ [\<lparr>ev_Source = pe_Source ?delivered,
                     ev_Type = EventTypeMessagePhoneDelivered,
                     ev_Time = clock (inMemory []) (tick ?w),
                     ev_ID = uuids (inMemory []) (Suc (tick ?w)),
                     ev_Data = Some (MessagePhoneDeliveredPayload (ID ?m) (Owner ?m)
                                       (pe_Timestamp ?delivered) (Contact ?m) (Content ?m))\<rparr>]"
    using StoreEvent_dispatches_without_guard [of ?delivered "inMemory []" ?m ?w] sd by simp
  have se: "setData (inMemory []) (Suc (Suc (tick ?v)))
              (MessagePhoneSentPayload (ID ?n) (Owner ?n) (UserID ?n) (pe_Timestamp ?sent)
                 (Contact ?n) (Content ?n)) = Some (External 0)"
    by (simp add: inMemory_def json_SetData_def marshals_def)
  have c: "(\<exists>e. fst (StoreEvent (inMemory []) ?n ?sent ?v) = Inl e)
           \<and> dispatched (trace (snd (StoreEvent (inMemory []) ?n ?sent ?v)))
               = dispatched (trace ?v)"
    using StoreEvent_dispatches_without_guard [of ?sent "inMemory []" ?n ?v] se by simp
  from a b c show ?thesis
    by (simp add: inMemory_def json_SetData_def marshals_def holding_def sample_def)
qed

text \<open>
  C2 as stated fails: for a message whose status is \<open>Pending\<close>, outside the set required
  of the \<open>Sent\<close> transition, \<^verbatim>\<open>StoreEvent\<close> with the event name \<open>Sent\<close> returns no
  error and dispatches the event.
\<close>

theorem StoreEvent_Sent_from_Pending:
  "Status (sample MessageStatusPending) = MessageStatusPending
   \<and> fst (StoreEvent (inMemory []) (sample MessageStatusPending)
            \<lparr>pe_MessageID = 7, pe_EventName = MessageEventNameSent,
             pe_Timestamp = 20, pe_Source = ''phone''\<rparr>
            (holding (sample MessageStatusPending)))
       = Inr (sample MessageStatusPending)
   \<and> dispatched (trace (snd (StoreEvent (inMemory []) (sample MessageStatusPending)
        \<lparr>pe_MessageID = 7, pe_EventName = MessageEventNameSent,
         pe_Timestamp = 20, pe_Source = ''phone''\<rparr>
        (holding (sample MessageStatusPending)))))
     = [\<lparr>ev_Source = ''phone'', ev_Type = EventTypeMessagePhoneSent, ev_Time = 0, ev_ID = 1,
         ev_Data = Some (MessagePhoneSentPayload 7 ''+18005550100'' ''user-1'' 20
                           ''+18005550199'' ''hello'')\<rparr>]"
  by (simp add: StoreEvent_def handleMessageSentEvent_def createMessagePhoneSentEvent_def
        createEvent_eq Dispatch_def Load_def Let_def called_def answered_def inMemory_def json_SetData_def
        marshals_def holding_def sample_def)

subsection \<open>GetOutstanding\<close>

text \<open>
  What one step of a goroutine adds to the answers and to the trace. A step of the fan-out
  either goes on without a failure, or ends the goroutine on one failed step, or ends it on
  a reloaded message, which it appends to the results. A step of the heartbeat asks for
  nothing of the fan-out, and logs the error of every failure it meets.
\<close>

lemma reloaded_append: "reloaded (as @ bs) = reloaded as @ reloaded bs"
  by (induction as rule: reloaded.induct) simp_all

lemma advance_step:
  assumes "advance env source g results w = (g1, results1, w1)" and "sending g"
  shows "\<exists>A T. answers w1 = answers w @ A \<and> trace w1 = trace w @ T
           \<and> results1 = results @ reloaded A
           \<and> length (filter failedStep A) + length (reloaded A)
                + (if g1 = Finished then 0 else 1)
              = (if g = Finished then 0 else 1)
           \<and> (\<forall>a \<in> set A. \<not> builtHeartbeat a \<and> \<not> dispatchedHeartbeat a
                              \<and> owed owner a = None)
           \<and> sending g1"
proof (cases g)
  case (Started m)
  with assms show ?thesis
    by (auto simp add: advance_def createMessagePhoneSendingEvent_def createEvent_eq
          ctxLogger_Error_def
        split: option.splits)
next
  case (Built m event)
  with assms show ?thesis
    by (auto simp add: advance_def Dispatch_def Let_def called_def answered_def
          ctxLogger_Error_def
        split: option.splits prod.splits)
next
  case (Published m)
  with assms show ?thesis
    by (auto simp add: advance_def Load_def Let_def called_def answered_def
          ctxLogger_Error_def
        split: option.splits sum.splits if_splits)
next
  case Finished
  with assms show ?thesis
    by (simp add: advance_def)
qed

lemma beat_step:
  assumes "beat env quantity params h w = (h1, w1)" and "beating h"
  shows "\<exists>A T. answers w1 = answers w @ A \<and> trace w1 = trace w @ T
           \<and> filter failedStep A = [] \<and> reloaded A = []
           \<and> length (filter builtHeartbeat A) + toBuild h1 = toBuild h
           \<and> length (filter dispatchedHeartbeat A) + toDispatch h1 = toDispatch h
           \<and> (\<forall>a \<in> set A. \<forall>c. owed (go_Owner params) a = Some c \<longrightarrow> c \<in> set T)
           \<and> beating h1"
proof (cases h)
  case HeartbeatStarted
  with assms show ?thesis
    by (auto simp add: beat_def createHeartbeatPhoneOutstandingEvent_def createEvent_eq
          ctxLogger_Error_def
        split: option.splits)
next
  case (HeartbeatBuilt event)
  with assms show ?thesis
    by (auto simp add: beat_def Dispatch_def Let_def called_def answered_def
          ctxLogger_Error_def
        split: option.splits prod.splits)
next
  case HeartbeatFinished
  with assms show ?thesis
    by (simp add: beat_def)
qed

text \<open>
  A run under any schedule keeps the sum of the results, the failed steps and the goroutines
  still running, and leaves no failure of the heartbeat without its entry in the log.
\<close>

lemma unfinished_Cons:
  "unfinished (g # gs) = (if g = Finished then 0 else 1) + unfinished gs"
  by (simp add: unfinished_def)

lemma unfinished_update:
  "i < length gs \<Longrightarrow>
   unfinished (gs[i := g]) + (if gs ! i = Finished then 0 else 1)
     = unfinished gs + (if g = Finished then 0 else 1)"
proof (induction gs arbitrary: i)
  case Nil
  then show ?case by simp
next
  case (Cons a gs)
  show ?case
  proof (cases i)
    case 0
    then show ?thesis by (simp add: unfinished_Cons)
  next
    case (Suc j)
    with Cons.prems have "j < length gs" by simp
    from Cons.IH [OF this]
    have "unfinished (gs[j := g]) + (if gs ! j = Finished then 0 else 1)
            = unfinished gs + (if g = Finished then 0 else 1)" .
    then have "unfinished (a # gs[j := g]) + (if gs ! j = Finished then 0 else 1)
            = unfinished (a # gs) + (if g = Finished then 0 else 1)"
      unfolding unfinished_Cons by linarith
    with Suc show ?thesis by simp
  qed
qed

lemma sending_update:
  "\<forall>g \<in> set gs. sending g \<Longrightarrow> sending g1 \<Longrightarrow> \<forall>g \<in> set (gs[i := g1]). sending g"
  using set_update_subset_insert [of gs i g1] by blast

lemma run_invariant:
  assumes "run env params quantity schedule h gs results w = (h1, gs1, results1, w1)"
    and "beating h" and "\<forall>g \<in> set gs. sending g"
  shows "\<exists>A T. answers w1 = answers w @ A \<and> trace w1 = trace w @ T
           \<and> results1 = results @ reloaded A
           \<and> length (filter failedStep A) + length (reloaded A) + unfinished gs1
              = unfinished gs
           \<and> length (filter builtHeartbeat A) + toBuild h1 = toBuild h
           \<and> length (filter dispatchedHeartbeat A) + toDispatch h1 = toDispatch h
           \<and> (\<forall>a \<in> set A. \<forall>c. owed (go_Owner params) a = Some c \<longrightarrow> c \<in> set T)
           \<and> length gs1 = length gs"
  using assms
proof (induction schedule arbitrary: h gs results w)
  case Nil
  then show ?case by simp
next
  case (Cons t schedule)
  show ?case
  proof (cases t)
    case HeartbeatTurn
    obtain h2 w2 where b: "beat env quantity params h w = (h2, w2)"
      by (cases "beat env quantity params h w")
    from beat_step [OF b Cons.prems(2)] obtain A1 T1 where
      s: "answers w2 = answers w @ A1" "trace w2 = trace w @ T1"
         "filter failedStep A1 = []" "reloaded A1 = []"
         "length (filter builtHeartbeat A1) + toBuild h2 = toBuild h"
         "length (filter dispatchedHeartbeat A1) + toDispatch h2 = toDispatch h"
         "\<forall>a \<in> set A1. \<forall>c. owed (go_Owner params) a = Some c \<longrightarrow> c \<in> set T1"
         "beating h2"
      by blast
    from Cons.prems(1) HeartbeatTurn b
    have r: "run env params quantity schedule h2 gs results w2 = (h1, gs1, results1, w1)"
      by simp
    from Cons.IH [OF r s(8) Cons.prems(3)] obtain A2 T2 where
      i: "answers w1 = answers w2 @ A2" "trace w1 = trace w2 @ T2"
         "results1 = results @ reloaded A2"
         "length (filter failedStep A2) + length (reloaded A2) + unfinished gs1
            = unfinished gs"
         "length (filter builtHeartbeat A2) + toBuild h1 = toBuild h2"
         "length (filter dispatchedHeartbeat A2) + toDispatch h1 = toDispatch h2"
         "\<forall>a \<in> set A2. \<forall>c. owed (go_Owner params) a = Some c \<longrightarrow> c \<in> set T2"
         "length gs1 = length gs"
      by blast
    have "answers w1 = answers w @ (A1 @ A2)" "trace w1 = trace w @ (T1 @ T2)"
      using s(1,2) i(1,2) by simp_all
    moreover have "results1 = results @ reloaded (A1 @ A2)"
      using s(4) i(3) by (simp add: reloaded_append)
    moreover have "length (filter failedStep (A1 @ A2)) + length (reloaded (A1 @ A2))
                     + unfinished gs1 = unfinished gs"
      using s(3,4) i(4) by (simp add: reloaded_append)
    moreover have "length (filter builtHeartbeat (A1 @ A2)) + toBuild h1 = toBuild h"
      using s(5) i(5) by simp
    moreover have "length (filter dispatchedHeartbeat (A1 @ A2)) + toDispatch h1 = toDispatch h"
      using s(6) i(6) by simp
    moreover have "\<forall>a \<in> set (A1 @ A2). \<forall>c. owed (go_Owner params) a = Some c
                     \<longrightarrow> c \<in> set (T1 @ T2)"
      using s(7) i(7) by auto
    ultimately show ?thesis using i(8) by blast
  next
    case (WorkerTurn n)
    show ?thesis
    proof (cases "n < length gs")
      case False
      with Cons.prems(1) WorkerTurn
      have "run env params quantity schedule h gs results w = (h1, gs1, results1, w1)"
        by simp
      from Cons.IH [OF this Cons.prems(2,3)] show ?thesis .
    next
      case True
      obtain g2 r2 w2 where
        a: "advance env (go_Source params) (gs ! n) results w = (g2, r2, w2)"
        by (cases "advance env (go_Source params) (gs ! n) results w")
      from True Cons.prems(3) have "sending (gs ! n)" by simp
      from advance_step [OF a this, of "go_Owner params"] obtain A1 T1 where
        s: "answers w2 = answers w @ A1" "trace w2 = trace w @ T1"
           "r2 = results @ reloaded A1"
           "length (filter failedStep A1) + length (reloaded A1)
              + (if g2 = Finished then 0 else 1)
            = (if gs ! n = Finished then 0 else 1)"
           "\<forall>a \<in> set A1. \<not> builtHeartbeat a \<and> \<not> dispatchedHeartbeat a
                             \<and> owed (go_Owner params) a = None"
           "sending g2"
        by blast
      from Cons.prems(1) WorkerTurn True a
      have r: "run env params quantity schedule h (gs[n := g2]) r2 w2 = (h1, gs1, results1, w1)"
        by simp
      from Cons.IH [OF r Cons.prems(2) sending_update [OF Cons.prems(3) s(6)]]
      obtain A2 T2 where
        i: "answers w1 = answers w2 @ A2" "trace w1 = trace w2 @ T2"
           "results1 = r2 @ reloaded A2"
           "length (filter failedStep A2) + length (reloaded A2) + unfinished gs1
              = unfinished (gs[n := g2])"
           "length (filter builtHeartbeat A2) + toBuild h1 = toBuild h"
           "length (filter dispatchedHeartbeat A2) + toDispatch h1 = toDispatch h"
           "\<forall>a \<in> set A2. \<forall>c. owed (go_Owner params) a = Some c \<longrightarrow> c \<in> set T2"
           "length gs1 = length (gs[n := g2])"
        by blast
      from s(5) have f: "filter builtHeartbeat A1 = []" "filter dispatchedHeartbeat A1 = []"
        by (simp_all add: filter_empty_conv)
      have "answers w1 = answers w @ (A1 @ A2)" "trace w1 = trace w @ (T1 @ T2)"
        using s(1,2) i(1,2) by simp_all
      moreover have "results1 = results @ reloaded (A1 @ A2)"
        using s(3) i(3) by (simp add: reloaded_append)
      moreover have "length (filter failedStep (A1 @ A2)) + length (reloaded (A1 @ A2))
                       + unfinished gs1 = unfinished gs"
        using s(4) i(4) unfinished_update [OF True, of g2]
        by (simp add: reloaded_append split: if_splits)
      moreover have "length (filter builtHeartbeat (A1 @ A2)) + toBuild h1 = toBuild h"
        using f(1) i(5) by simp
      moreover have "length (filter dispatchedHeartbeat (A1 @ A2)) + toDispatch h1
                       = toDispatch h"
        using f(2) i(6) by simp
      moreover have "\<forall>a \<in> set (A1 @ A2). \<forall>c. owed (go_Owner params) a = Some c
                       \<longrightarrow> c \<in> set (T1 @ T2)"
        using s(5) i(7) by auto
      ultimately show ?thesis using i(8) by auto
    qed
  qed
qed

text \<open>Every run reaches the end: the last turns finish each goroutine.\<close>

lemma run_append:
  "run env params quantity (s1 @ s2) h gs results w =
     (case run env params quantity s1 h gs results w of
        (h1, gs1, results1, w1) \<Rightarrow> run env params quantity s2 h1 gs1 results1 w1)"
  by (induction env params quantity s1 h gs results w rule: run.induct)
     (simp_all split: prod.splits)

lemma run_length:
  "run env params quantity schedule h gs results w = (h1, gs1, results1, w1)
   \<Longrightarrow> length gs1 = length gs"
  by (induction env params quantity schedule h gs results w rule: run.induct)
     (auto split: prod.splits if_splits)

lemma advance_thrice_Finished:
  assumes "advance env source g results w = (g1, results1, w1)"
    and "advance env source g1 results1 w1 = (g2, results2, w2)"
    and "advance env source g2 results2 w2 = (g3, results3, w3)"
  shows "g3 = Finished"
proof -
  have one: "g1 = Finished \<or> (\<exists>m event. g = Started m \<and> g1 = Built m event)
             \<or> (\<exists>m event. g = Built m event \<and> g1 = Published m)"
    using assms(1)
    by (cases g) (auto simp add: advance_def split: prod.splits option.splits sum.splits)
  have two: "g1 = Finished \<Longrightarrow> g2 = Finished"
    using assms(2) by (simp add: advance_def)
  have three: "g2 = Finished \<Longrightarrow> g3 = Finished"
    using assms(3) by (simp add: advance_def)
  have four: "\<And>m. g1 = Published m \<Longrightarrow> g2 = Finished"
    using assms(2) by (auto simp add: advance_def split: prod.splits sum.splits)
  have five: "\<And>m event. g1 = Built m event \<Longrightarrow> g2 = Finished \<or> g2 = Published m"
    using assms(2) by (auto simp add: advance_def split: prod.splits option.splits)
  have six: "\<And>m. g2 = Published m \<Longrightarrow> g3 = Finished"
    using assms(3) by (auto simp add: advance_def split: prod.splits sum.splits)
  from one two three four five six show ?thesis by blast
qed

lemma beat_twice_Finished:
  assumes "beat env quantity params h w = (h1, w1)"
    and "beat env quantity params h1 w1 = (h2, w2)"
  shows "h2 = HeartbeatFinished"
proof -
  have "h1 = HeartbeatFinished \<or> (\<exists>event. h1 = HeartbeatBuilt event)"
    using assms(1)
    by (cases h) (auto simp add: beat_def split: prod.splits option.splits)
  with assms(2) show ?thesis
    by (auto simp add: beat_def split: prod.splits option.splits)
qed

lemma run_workers_heartbeat:
  "run env params quantity (concat (map (\<lambda>i. [WorkerTurn i, WorkerTurn i, WorkerTurn i]) is))
     h gs results w = (h1, gs1, results1, w1) \<Longrightarrow> h1 = h"
proof (induction "is" arbitrary: gs results w)
  case Nil
  then show ?case by simp
next
  case (Cons i "is")
  then show ?case
    by (auto split: prod.splits if_splits)
qed

lemma run_workers_to_the_end:
  assumes "run env params quantity
             (concat (map (\<lambda>i. [WorkerTurn i, WorkerTurn i, WorkerTurn i])
                        [k..<k + length gs]))
             h (pre @ gs) results w = (h1, gs1, results1, w1)"
    and "length pre = k"
  shows "\<exists>gs2. gs1 = pre @ gs2 \<and> unfinished gs2 = 0"
  using assms
proof (induction gs arbitrary: pre k results w)
  case Nil
  then show ?case by (simp add: unfinished_def)
next
  case (Cons g gs)
  have "k < k + length (g # gs)" by simp
  from upt_conv_Cons [OF this]
  have u: "[k..<k + length (g # gs)] = k # [Suc k..<Suc k + length gs]"
    by simp
  let ?rest = "concat (map (\<lambda>i. [WorkerTurn i, WorkerTurn i, WorkerTurn i])
                         [Suc k..<Suc k + length gs])"
  have s: "concat (map (\<lambda>i. [WorkerTurn i, WorkerTurn i, WorkerTurn i])
                     [k..<k + length (g # gs)])
             = WorkerTurn k # WorkerTurn k # WorkerTurn k # ?rest"
    unfolding u by simp
  obtain g1 r1 v1 where a1: "advance env (go_Source params) g results w = (g1, r1, v1)"
    by (cases "advance env (go_Source params) g results w")
  obtain g2 r2 v2 where a2: "advance env (go_Source params) g1 r1 v1 = (g2, r2, v2)"
    by (cases "advance env (go_Source params) g1 r1 v1")
  obtain g3 r3 v3 where a3: "advance env (go_Source params) g2 r2 v2 = (g3, r3, v3)"
    by (cases "advance env (go_Source params) g2 r2 v2")
  from advance_thrice_Finished [OF a1 a2 a3] have f: "g3 = Finished" .
  have "run env params quantity (WorkerTurn k # WorkerTurn k # WorkerTurn k # ?rest)
          h (pre @ g # gs) results w
        = run env params quantity ?rest h ((pre @ [g3]) @ gs) r3 v3"
    using Cons.prems(2) a1 a2 a3 by (simp add: nth_append list_update_append)
  with Cons.prems(1) s
  have r: "run env params quantity ?rest h ((pre @ [g3]) @ gs) r3 v3 = (h1, gs1, results1, w1)"
    by simp
  have l: "length (pre @ [g3]) = Suc k"
    using Cons.prems(2) by simp
  from Cons.IH [OF r l] obtain gs2 where "gs1 = (pre @ [g3]) @ gs2" "unfinished gs2 = 0"
    by blast
  with f have "gs1 = pre @ (Finished # gs2) \<and> unfinished (Finished # gs2) = 0"
    by (simp add: unfinished_Cons)
  then show ?case by blast
qed

lemma run_to_the_end:
  assumes "run env params quantity (schedule @ toTheEnd (length gs)) h gs results w
             = (h1, gs1, results1, w1)"
  shows "h1 = HeartbeatFinished \<and> unfinished gs1 = 0"
proof -
  obtain h2 gs2 r2 w2 where
    a: "run env params quantity schedule h gs results w = (h2, gs2, r2, w2)"
    by (cases "run env params quantity schedule h gs results w") auto
  from run_length [OF a] have n: "length gs2 = length gs" .
  obtain h3 w3 where b1: "beat env quantity params h2 w2 = (h3, w3)"
    by (cases "beat env quantity params h2 w2")
  obtain h4 w4 where b2: "beat env quantity params h3 w3 = (h4, w4)"
    by (cases "beat env quantity params h3 w3")
  let ?workers = "concat (map (\<lambda>i. [WorkerTurn i, WorkerTurn i, WorkerTurn i])
                            [0..<0 + length gs2])"
  from assms a b1 b2 n
  have r: "run env params quantity ?workers h4 ([] @ gs2) r2 w4 = (h1, gs1, results1, w1)"
    by (simp add: run_append toTheEnd_def)
  from run_workers_heartbeat [OF r] beat_twice_Finished [OF b1 b2]
  have "h1 = HeartbeatFinished" by simp
  moreover from run_workers_to_the_end [OF r] have "unfinished gs1 = 0" by auto
  ultimately show ?thesis by simp
qed

lemma unfinished_Started: "unfinished (map Started ms) = length ms"
  by (induction ms) (simp_all add: unfinished_def)

text \<open>
  Three steps of a goroutine of the fan-out are the body of the goroutine, and two steps of
  the heartbeat are \<^verbatim>\<open>registerHeartbeatEvent\<close>: the run of the empty schedule is the one in
  which each goroutine runs to its end as it is started.
\<close>

lemma advance_thrice:
  "(case advance env source (Started m) results w of
      (g1, results1, w1) \<Rightarrow>
        (case advance env source g1 results1 w1 of
           (g2, results2, w2) \<Rightarrow> advance env source g2 results2 w2))
   = (Finished,
      (case fst (outstandingMessage env source m w) of
         None \<Rightarrow> results | Some r \<Rightarrow> results @ [r]),
      snd (outstandingMessage env source m w))"
  by (auto simp add: advance_def outstandingMessage_def
      split: option.splits prod.splits sum.splits)

lemma run_thrice:
  "run env params quantity (WorkerTurn k # WorkerTurn k # WorkerTurn k # schedule) h
     (replicate k Finished @ Started m # gs) results w
   = run env params quantity schedule h (replicate (Suc k) Finished @ gs)
       (case fst (outstandingMessage env (go_Source params) m w) of
          None \<Rightarrow> results | Some r \<Rightarrow> results @ [r])
       (snd (outstandingMessage env (go_Source params) m w))"
proof -
  obtain g1 r1 w1 where
    a1: "advance env (go_Source params) (Started m) results w = (g1, r1, w1)"
    by (cases "advance env (go_Source params) (Started m) results w")
  obtain g2 r2 w2 where a2: "advance env (go_Source params) g1 r1 w1 = (g2, r2, w2)"
    by (cases "advance env (go_Source params) g1 r1 w1")
  obtain g3 r3 w3 where a3: "advance env (go_Source params) g2 r2 w2 = (g3, r3, w3)"
    by (cases "advance env (go_Source params) g2 r2 w2")
  from advance_thrice [of env "go_Source params" m results w] a1 a2 a3
  have e: "g3 = Finished"
    "r3 = (case fst (outstandingMessage env (go_Source params) m w) of
             None \<Rightarrow> results | Some r \<Rightarrow> results @ [r])"
    "w3 = snd (outstandingMessage env (go_Source params) m w)"
    by simp_all
  have "run env params quantity (WorkerTurn k # WorkerTurn k # WorkerTurn k # schedule) h
          (replicate k Finished @ Started m # gs) results w
        = run env params quantity schedule h (replicate k Finished @ g3 # gs) r3 w3"
    by (simp add: a1 a2 a3 nth_append list_update_append)
  with e show ?thesis
    by (simp add: replicate_app_Cons_same)
qed

lemma run_sequential:
  "run env params quantity
     (concat (map (\<lambda>i. [WorkerTurn i, WorkerTurn i, WorkerTurn i]) [k..<k + length ms]))
     h (replicate k Finished @ map Started ms) results w
   = (case collectOutstanding env (go_Source params) ms results w of
        (results1, w1) \<Rightarrow> (h, replicate (k + length ms) Finished, results1, w1))"
proof (induction ms arbitrary: k results w)
  case Nil
  show ?case by simp
next
  case (Cons m ms)
  have "k < k + length (m # ms)" by simp
  from upt_conv_Cons [OF this]
  have u: "[k..<k + length (m # ms)] = k # [Suc k..<Suc k + length ms]"
    by simp
  let ?rest = "concat (map (\<lambda>i. [WorkerTurn i, WorkerTurn i, WorkerTurn i])
                         [Suc k..<Suc k + length ms])"
  let ?results = "case fst (outstandingMessage env (go_Source params) m w) of
                    None \<Rightarrow> results | Some r \<Rightarrow> results @ [r]"
  let ?w1 = "snd (outstandingMessage env (go_Source params) m w)"
  have s: "concat (map (\<lambda>i. [WorkerTurn i, WorkerTurn i, WorkerTurn i])
                     [k..<k + length (m # ms)])
             = WorkerTurn k # WorkerTurn k # WorkerTurn k # ?rest"
    unfolding u by simp
  have "run env params quantity
          (concat (map (\<lambda>i. [WorkerTurn i, WorkerTurn i, WorkerTurn i])
                     [k..<k + length (m # ms)]))
          h (replicate k Finished @ map Started (m # ms)) results w
        = run env params quantity (WorkerTurn k # WorkerTurn k # WorkerTurn k # ?rest) h
            (replicate k Finished @ Started m # map Started ms) results w"
    by (simp only: s list.map)
  also have "\<dots> = run env params quantity ?rest h
                     (replicate (Suc k) Finished @ map Started ms) ?results ?w1"
    by (rule run_thrice)
  also have "\<dots> = (case collectOutstanding env (go_Source params) ms ?results ?w1 of
                      (results1, w1) \<Rightarrow>
                        (h, replicate (Suc k + length ms) Finished, results1, w1))"
    by (rule Cons.IH)
  also have "\<dots> = (case collectOutstanding env (go_Source params) (m # ms) results w of
                      (results1, w1) \<Rightarrow>
                        (h, replicate (k + length (m # ms)) Finished, results1, w1))"
    by (cases "outstandingMessage env (go_Source params) m w") (simp split: option.splits)
  finally show ?case .
qed

lemma beat_twice:
  "(case beat env quantity params HeartbeatStarted w of
      (h1, w1) \<Rightarrow> beat env quantity params h1 w1)
   = (HeartbeatFinished, registerHeartbeatEvent env quantity params w)"
  by (auto simp add: beat_def registerHeartbeatEvent_def Let_def
      split: prod.splits option.splits)

lemma GetOutstanding_scheduled_Nil:
  "GetOutstanding_scheduled env [] params w = GetOutstanding env params w"
proof -
  obtain r w1 where f: "repository_GetOutstanding env (go_UserID params) (go_Owner params)
                          (go_Limit params) w = (r, w1)"
    by (cases "repository_GetOutstanding env (go_UserID params) (go_Owner params)
                 (go_Limit params) w")
  show ?thesis
  proof (cases r)
    case (Inl err)
    with f show ?thesis
      by (simp add: GetOutstanding_scheduled_def GetOutstanding_def)
  next
    case (Inr messages)
    let ?q = "int (length messages)"
    obtain h1 v1 where b1: "beat env ?q params HeartbeatStarted w1 = (h1, v1)"
      by (cases "beat env ?q params HeartbeatStarted w1")
    obtain h2 v2 where b2: "beat env ?q params h1 v1 = (h2, v2)"
      by (cases "beat env ?q params h1 v1")
    from beat_twice [of env ?q params w1] b1 b2
    have e: "h2 = HeartbeatFinished" "v2 = registerHeartbeatEvent env ?q params w1"
      by simp_all
    from run_sequential [of env params ?q 0 messages h2 "[]" v2]
    have "run env params ?q
            (concat (map (\<lambda>i. [WorkerTurn i, WorkerTurn i, WorkerTurn i])
                       [0..<length messages]))
            h2 (map Started messages) [] v2
          = (case collectOutstanding env (go_Source params) messages [] v2 of
               (results1, w3) \<Rightarrow> (h2, replicate (length messages) Finished, results1, w3))"
      by simp
    with f Inr b1 b2 e show ?thesis
      by (simp add: GetOutstanding_scheduled_def GetOutstanding_def toTheEnd_def
            handleOutstandingMessages_def Let_def split: prod.splits)
  qed
qed

lemma GetOutstanding_scheduled_summary:
  assumes "repository_GetOutstanding env (go_UserID params) (go_Owner params)
             (go_Limit params) w = (Inr messages, w1)"
  shows "\<exists>results w2 A T.
           GetOutstanding_scheduled env schedule params w = (Inr results, w2)
           \<and> answers w2 = answers w1 @ A \<and> trace w2 = trace w1 @ T
           \<and> results = reloaded A
           \<and> length results + length (filter failedStep A) = length messages
           \<and> length (filter builtHeartbeat A) = 1
           \<and> length (filter dispatchedHeartbeat A) = 1
           \<and> (\<forall>a \<in> set A. \<forall>c. owed (go_Owner params) a = Some c \<longrightarrow> c \<in> set T)"
proof -
  let ?q = "int (length messages)"
  let ?gs = "map Started messages"
  obtain h gs results w2 where
    r: "run env params ?q (schedule @ toTheEnd (length ?gs)) HeartbeatStarted ?gs [] w1
          = (h, gs, results, w2)"
    by (cases "run env params ?q (schedule @ toTheEnd (length ?gs)) HeartbeatStarted ?gs [] w1")
       auto
  from run_to_the_end [OF r] have e: "h = HeartbeatFinished" "unfinished gs = 0"
    by simp_all
  have "beating HeartbeatStarted" "\<forall>g \<in> set ?gs. sending g"
    by auto
  from run_invariant [OF r this] obtain A T where
    i: "answers w2 = answers w1 @ A" "trace w2 = trace w1 @ T"
       "results = [] @ reloaded A"
       "length (filter failedStep A) + length (reloaded A) + unfinished gs = unfinished ?gs"
       "length (filter builtHeartbeat A) + toBuild h = toBuild HeartbeatStarted"
       "length (filter dispatchedHeartbeat A) + toDispatch h = toDispatch HeartbeatStarted"
       "\<forall>a \<in> set A. \<forall>c. owed (go_Owner params) a = Some c \<longrightarrow> c \<in> set T"
    by blast
  from assms r have "GetOutstanding_scheduled env schedule params w = (Inr results, w2)"
    by (simp add: GetOutstanding_scheduled_def)
  moreover from i(3,4) e have "length results + length (filter failedStep A) = length messages"
    by (simp add: unfinished_Started)
  moreover from i(5,6) e have "length (filter builtHeartbeat A) = 1"
    "length (filter dispatchedHeartbeat A) = 1"
    by simp_all
  ultimately show ?thesis using i(1,2,3,7) by auto
qed

lemma answersSince_append: "answers w1 = answers w @ A \<Longrightarrow> answersSince w w1 = A"
  by (simp add: answersSince_def)

lemma callsSince_append: "trace w1 = trace w @ T \<Longrightarrow> callsSince w w1 = T"
  by (simp add: callsSince_def)

lemmas eval_defs = GetOutstanding_def GetOutstanding_scheduled_def repository_GetOutstanding_def
  registerHeartbeatEvent_def handleOutstandingMessages_def outstandingMessage_def
  createHeartbeatPhoneOutstandingEvent_def createMessagePhoneSendingEvent_def createEvent_eq
  Dispatch_def Load_def Let_def called_def answered_def ctxLogger_Error_def inMemory_def
  unheard_def json_SetData_def marshals_def holding_def sample_def twoOutstanding_def poll_def
  blank_def mixed_def toTheEnd_def beat_def advance_def answersSince_def callsSince_def

text \<open>
  C5. When the repository answers \<^verbatim>\<open>GetOutstanding\<close> with a batch of \<open>N\<close> messages, then
  under every schedule of the goroutines the call returns messages and no error: the
  messages that the reloads returned, in the order of completion. Their number is \<open>N - K\<close>,
  where \<open>K\<close> is the number of steps at which the environment failed a message of the batch:
  the event that could not be built, the event that could not be dispatched, the message
  that could not be reloaded. The run in which each goroutine runs to its end as it is
  started, \<^verbatim>\<open>GetOutstanding\<close>, is the one of the empty schedule.
\<close>

theorem GetOutstanding_partial_results:
  assumes "repository_GetOutstanding env (go_UserID params) (go_Owner params)
             (go_Limit params) w = (Inr messages, w1)"
  shows "(\<exists>results w2.
            GetOutstanding_scheduled env schedule params w = (Inr results, w2)
            \<and> results = reloaded (answersSince w1 w2)
            \<and> length results
                = length messages - length (filter failedStep (answersSince w1 w2))
            \<and> length (filter failedStep (answersSince w1 w2)) \<le> length messages)
       \<and> GetOutstanding env params w = GetOutstanding_scheduled env [] params w"
proof -
  from GetOutstanding_scheduled_summary [OF assms, of schedule] obtain results w2 A T where
    s: "GetOutstanding_scheduled env schedule params w = (Inr results, w2)"
       "answers w2 = answers w1 @ A" "results = reloaded A"
       "length results + length (filter failedStep A) = length messages"
    by blast
  from s(2) have "answersSince w1 w2 = A" by (rule answersSince_append)
  with s(1,3,4) have "\<exists>results w2.
      GetOutstanding_scheduled env schedule params w = (Inr results, w2)
      \<and> results = reloaded (answersSince w1 w2)
      \<and> length results = length messages - length (filter failedStep (answersSince w1 w2))
      \<and> length (filter failedStep (answersSince w1 w2)) \<le> length messages"
    by auto
  then show ?thesis
    by (simp add: GetOutstanding_scheduled_Nil)
qed

theorem GetOutstanding_partial_results_witness:
  "fst (repository_GetOutstanding (inMemory twoOutstanding) ''user-1'' ''+18005550100'' 10
          (holding (sample MessageStatusPending))) = Inr twoOutstanding
   \<and> fst (GetOutstanding_scheduled (inMemory twoOutstanding) mixed (poll 20)
            (holding (sample MessageStatusPending))) = Inr [sample MessageStatusPending]
   \<and> filter failedStep
        (answersSince
           (snd (repository_GetOutstanding (inMemory twoOutstanding) ''user-1''
                   ''+18005550100'' 10 (holding (sample MessageStatusPending))))
           (snd (GetOutstanding_scheduled (inMemory twoOutstanding) mixed (poll 20)
                   (holding (sample MessageStatusPending)))))
       = [LoadAnswer ''user-1'' 8 (Inl NotFound)]
   \<and> length [sample MessageStatusPending]
       = length twoOutstanding - length [LoadAnswer ''user-1'' 8 (Inl NotFound)]"
proof -
  let ?env = "inMemory twoOutstanding"
  let ?w = "holding (sample MessageStatusPending)"
  let ?w1 = "snd (repository_GetOutstanding ?env ''user-1'' ''+18005550100'' 10 ?w)"
  let ?r = "GetOutstanding_scheduled ?env mixed (poll 20) ?w"
  have f: "repository_GetOutstanding ?env (go_UserID (poll 20)) (go_Owner (poll 20))
             (go_Limit (poll 20)) ?w = (Inr twoOutstanding, ?w1)"
    by (simp add: repository_GetOutstanding_def inMemory_def twoOutstanding_def poll_def Let_def)
  have f1: "fst (repository_GetOutstanding ?env ''user-1'' ''+18005550100'' 10 ?w)
              = Inr twoOutstanding"
    by (simp add: repository_GetOutstanding_def inMemory_def twoOutstanding_def Let_def)
  have e1: "fst ?r = Inr [sample MessageStatusPending]"
    by (simp add: eval_defs)
  have e2: "filter failedStep (answersSince ?w1 (snd ?r)) = [LoadAnswer ''user-1'' 8 (Inl NotFound)]"
    by (simp add: eval_defs)
  from GetOutstanding_partial_results [OF f, of mixed] obtain results w2 where
    t: "?r = (Inr results, w2)"
       "length results = length twoOutstanding - length (filter failedStep (answersSince ?w1 w2))"
    by blast
  from t(1) e1 have "results = [sample MessageStatusPending]" "w2 = snd ?r"
    by simp_all
  with t(2) e2 have "length [sample MessageStatusPending]
                       = length twoOutstanding - length [LoadAnswer ''user-1'' 8 (Inl NotFound)]"
    by simp
  with f1 e1 e2 show ?thesis
    by blast
qed

text \<open>
  C8. Under every schedule \<^verbatim>\<open>GetOutstanding\<close> returns an error exactly when the fetch
  from the repository fails. When the fetch succeeds the call returns messages whatever
  happens to the heartbeat: its event is built once and dispatched once, and when the
  environment fails to build it or to dispatch it, \<^verbatim>\<open>registerHeartbeatEvent\<close> logs the
  wrapped error, which is no part of the result.
\<close>

theorem GetOutstanding_error_iff_fetch_fails:
  "((\<exists>e. fst (GetOutstanding_scheduled env schedule params w) = Inl e)
      \<longleftrightarrow> (\<exists>e. fst (repository_GetOutstanding env (go_UserID params) (go_Owner params)
                       (go_Limit params) w) = Inl e))
   \<and> (\<forall>messages w1.
         repository_GetOutstanding env (go_UserID params) (go_Owner params)
           (go_Limit params) w = (Inr messages, w1)
         \<longrightarrow> (let r = GetOutstanding_scheduled env schedule params w;
                  A = answersSince w1 (snd r);
                  T = callsSince w1 (snd r);
                  pl = HeartbeatPhoneOutstandingPayload (go_Owner params)
                         (go_Timestamp params) (int (length messages))
              in (\<exists>results. fst r = Inr results)
                 \<and> length (filter builtHeartbeat A) = 1
                 \<and> length (filter dispatchedHeartbeat A) = 1
                 \<and> (\<forall>err. SetDataAnswer pl (Some err) \<in> set A
                        \<longrightarrow> LogError
                              (Propagate (Propagate err (CannotEncodeAsJSON pl))
                                 (CannotCreateEventForOwner
                                    EventTypeHeartbeatPhoneOutstanding (go_Owner params)))
                            \<in> set T)
                 \<and> (\<forall>event err.
                       DispatchAnswer event (Some err) \<in> set A
                       \<and> ev_Type event = EventTypeHeartbeatPhoneOutstanding
                       \<longrightarrow> LogError
                             (Propagate err
                                (CannotDispatchEvent EventTypeHeartbeatPhoneOutstanding
                                   (ev_ID event)))
                           \<in> set T)))
   \<and> GetOutstanding env params w = GetOutstanding_scheduled env [] params w"
proof -
  obtain r w1 where f: "repository_GetOutstanding env (go_UserID params) (go_Owner params)
                          (go_Limit params) w = (r, w1)"
    by (cases "repository_GetOutstanding env (go_UserID params) (go_Owner params)
                 (go_Limit params) w")
  have n: "GetOutstanding env params w = GetOutstanding_scheduled env [] params w"
    by (simp add: GetOutstanding_scheduled_Nil)
  show ?thesis
  proof (cases r)
    case (Inl err)
    with f have "fst (GetOutstanding_scheduled env schedule params w)
                   = Inl (Propagate err (CouldNotFetchOutstanding (go_Limit params)))"
      by (simp add: GetOutstanding_scheduled_def)
    with f Inl n show ?thesis
      by simp
  next
    case (Inr messages)
    let ?pl = "HeartbeatPhoneOutstandingPayload (go_Owner params) (go_Timestamp params)
                 (int (length messages))"
    from f Inr have f1: "repository_GetOutstanding env (go_UserID params) (go_Owner params)
                           (go_Limit params) w = (Inr messages, w1)"
      by simp
    from GetOutstanding_scheduled_summary [OF f1, of schedule] obtain results w2 A T where
      s: "GetOutstanding_scheduled env schedule params w = (Inr results, w2)"
         "answers w2 = answers w1 @ A" "trace w2 = trace w1 @ T"
         "length (filter builtHeartbeat A) = 1"
         "length (filter dispatchedHeartbeat A) = 1"
         "\<forall>a \<in> set A. \<forall>c. owed (go_Owner params) a = Some c \<longrightarrow> c \<in> set T"
      by blast
    have a: "answersSince w1 w2 = A" using s(2) by (rule answersSince_append)
    have t: "callsSince w1 w2 = T" using s(3) by (rule callsSince_append)
    have b: "\<forall>err. SetDataAnswer ?pl (Some err) \<in> set A
               \<longrightarrow> LogError
                     (Propagate (Propagate err (CannotEncodeAsJSON ?pl))
                        (CannotCreateEventForOwner
                           EventTypeHeartbeatPhoneOutstanding (go_Owner params)))
                   \<in> set T"
      using s(6) by fastforce
    have d: "\<forall>event err.
               DispatchAnswer event (Some err) \<in> set A
               \<and> ev_Type event = EventTypeHeartbeatPhoneOutstanding
               \<longrightarrow> LogError
                     (Propagate err
                        (CannotDispatchEvent EventTypeHeartbeatPhoneOutstanding
                           (ev_ID event)))
                   \<in> set T"
      using s(6) by fastforce
    from f1 s(1,4,5) a t b d n show ?thesis
      by (simp add: Let_def)
  qed
qed

theorem GetOutstanding_error_iff_fetch_fails_witness:
  "fst (repository_GetOutstanding (unheard twoOutstanding) ''user-1'' ''+18005550100'' 10
          (holding (sample MessageStatusPending))) = Inr twoOutstanding
   \<and> fst (GetOutstanding_scheduled (unheard twoOutstanding) mixed
            (poll (253402300800 * 1000000000)) (holding (sample MessageStatusPending)))
       = Inr [sample MessageStatusPending]
   \<and> SetDataAnswer (HeartbeatPhoneOutstandingPayload ''+18005550100''
                      (253402300800 * 1000000000) 2) (Some (External 0))
       \<in> set (answersSince
                (snd (repository_GetOutstanding (unheard twoOutstanding) ''user-1''
                        ''+18005550100'' 10 (holding (sample MessageStatusPending))))
                (snd (GetOutstanding_scheduled (unheard twoOutstanding) mixed
                        (poll (253402300800 * 1000000000))
                        (holding (sample MessageStatusPending)))))
   \<and> LogError
        (Propagate
           (Propagate (External 0)
              (CannotEncodeAsJSON (HeartbeatPhoneOutstandingPayload ''+18005550100''
                                     (253402300800 * 1000000000) 2)))
           (CannotCreateEventForOwner EventTypeHeartbeatPhoneOutstanding ''+18005550100''))
       \<in> set (callsSince
                (snd (repository_GetOutstanding (unheard twoOutstanding) ''user-1''
                        ''+18005550100'' 10 (holding (sample MessageStatusPending))))
                (snd (GetOutstanding_scheduled (unheard twoOutstanding) mixed
                        (poll (253402300800 * 1000000000))
                        (holding (sample MessageStatusPending)))))
   \<and> LogError (Propagate (External 9)
                  (CannotDispatchEvent EventTypeHeartbeatPhoneOutstanding 4))
       \<in> set (callsSince
                (snd (repository_GetOutstanding (unheard twoOutstanding) ''user-1''
                        ''+18005550100'' 10 (holding (sample MessageStatusPending))))
                (snd (GetOutstanding_scheduled (unheard twoOutstanding) mixed
                        (poll (253402300800 * 1000000000))
                        (holding (sample MessageStatusPending)))))"
proof -
  let ?env = "unheard twoOutstanding"
  let ?p = "poll (253402300800 * 1000000000)"
  let ?w = "holding (sample MessageStatusPending)"
  let ?w1 = "snd (repository_GetOutstanding ?env ''user-1'' ''+18005550100'' 10 ?w)"
  let ?r = "GetOutstanding_scheduled ?env mixed ?p ?w"
  let ?pl = "HeartbeatPhoneOutstandingPayload ''+18005550100'' (253402300800 * 1000000000) 2"
  let ?event = "\<lparr>ev_Source = ''phone'', ev_Type = EventTypeHeartbeatPhoneOutstanding,
                  ev_Time = 3, ev_ID = 4, ev_Data = None\<rparr>"
  have f: "repository_GetOutstanding ?env (go_UserID ?p) (go_Owner ?p) (go_Limit ?p) ?w
             = (Inr twoOutstanding, ?w1)"
    by (simp add: repository_GetOutstanding_def inMemory_def unheard_def twoOutstanding_def
          poll_def Let_def)
  have f1: "fst (repository_GetOutstanding ?env ''user-1'' ''+18005550100'' 10 ?w)
              = Inr twoOutstanding"
    by (simp add: repository_GetOutstanding_def inMemory_def unheard_def twoOutstanding_def
          Let_def)
  have p: "go_Owner ?p = ''+18005550100'' \<and> go_Timestamp ?p = 253402300800 * 1000000000
           \<and> int (length twoOutstanding) = 2"
    by (simp add: poll_def twoOutstanding_def)
  have e1: "fst ?r = Inr [sample MessageStatusPending]"
    by (simp add: eval_defs)
  have a1: "SetDataAnswer ?pl (Some (External 0)) \<in> set (answersSince ?w1 (snd ?r))"
    by (simp add: eval_defs)
  have a2: "DispatchAnswer ?event (Some (External 9)) \<in> set (answersSince ?w1 (snd ?r))
            \<and> ev_Type ?event = EventTypeHeartbeatPhoneOutstanding \<and> ev_ID ?event = 4"
    by (simp add: eval_defs)
  note t = GetOutstanding_error_iff_fetch_fails [of ?env mixed ?p ?w]
  from t f p a1 have l1: "LogError
        (Propagate (Propagate (External 0) (CannotEncodeAsJSON ?pl))
           (CannotCreateEventForOwner EventTypeHeartbeatPhoneOutstanding ''+18005550100''))
       \<in> set (callsSince ?w1 (snd ?r))"
    by (simp add: Let_def)
  from t f have d: "\<forall>event err.
        DispatchAnswer event (Some err) \<in> set (answersSince ?w1 (snd ?r))
        \<and> ev_Type event = EventTypeHeartbeatPhoneOutstanding
        \<longrightarrow> LogError (Propagate err
                        (CannotDispatchEvent EventTypeHeartbeatPhoneOutstanding (ev_ID event)))
            \<in> set (callsSince ?w1 (snd ?r))"
    by (simp add: Let_def)
  from d [rule_format, of ?event "External 9"] a2
  have l2: "LogError (Propagate (External 9)
                        (CannotDispatchEvent EventTypeHeartbeatPhoneOutstanding 4))
       \<in> set (callsSince ?w1 (snd ?r))"
    by simp
  from f1 e1 a1 l1 l2 show ?thesis
    by blast
qed

lemma registerHeartbeatEvent_trace:
  "trace (registerHeartbeatEvent env quantity params w)
     = trace w
         @ (case setData env (Suc (Suc (tick w)))
                   (HeartbeatPhoneOutstandingPayload (go_Owner params) (go_Timestamp params)
                      quantity) of
              Some err \<Rightarrow>
                [LogError (Propagate
                    (Propagate err (CannotEncodeAsJSON
                       (HeartbeatPhoneOutstandingPayload (go_Owner params)
                          (go_Timestamp params) quantity)))
                    (CannotCreateEventForOwner EventTypeHeartbeatPhoneOutstanding
                       (go_Owner params)))]
            | None \<Rightarrow> [])
         @ [CallDispatch
              \<lparr>ev_Source = go_Source params, ev_Type = EventTypeHeartbeatPhoneOutstanding,
               ev_Time = clock env (tick w), ev_ID = uuids env (Suc (tick w)),
               ev_Data = (case setData env (Suc (Suc (tick w)))
                                 (HeartbeatPhoneOutstandingPayload (go_Owner params)
                                    (go_Timestamp params) quantity) of
                            Some err \<Rightarrow> None
                          | None \<Rightarrow>
                              Some (HeartbeatPhoneOutstandingPayload (go_Owner params)
                                      (go_Timestamp params) quantity))\<rparr>]
         @ (case fst (publish env (Suc (Suc (tick w)))
                        \<lparr>ev_Source = go_Source params,
                         ev_Type = EventTypeHeartbeatPhoneOutstanding,
                         ev_Time = clock env (tick w), ev_ID = uuids env (Suc (tick w)),
                         ev_Data = (case setData env (Suc (Suc (tick w)))
                                           (HeartbeatPhoneOutstandingPayload (go_Owner params)
                                              (go_Timestamp params) quantity) of
                                      Some err \<Rightarrow> None
                                    | None \<Rightarrow>
                                        Some (HeartbeatPhoneOutstandingPayload
                                                (go_Owner params) (go_Timestamp params)
                                                quantity))\<rparr>
                        (store w)) of
              Some e \<Rightarrow>
                [LogError (Propagate e (CannotDispatchEvent EventTypeHeartbeatPhoneOutstanding
                                          (uuids env (Suc (tick w)))))]
            | None \<Rightarrow> [])"
  by (auto simp add: registerHeartbeatEvent_def createHeartbeatPhoneOutstandingEvent_def
        createEvent_eq Dispatch_def Let_def called_def answered_def ctxLogger_Error_def
      split: option.splits prod.splits)

lemma outstandingMessage_encoding_failure:
  "setData env (Suc (Suc (tick w)))
     (MessagePhoneSendingPayload (ID m) (Owner m) (Contact m) (UserID m) (Content m)) = Some err
   \<Longrightarrow> dispatched (trace (snd (outstandingMessage env source m w))) = dispatched (trace w)
       \<and> fst (outstandingMessage env source m w) = None"
  by (simp add: outstandingMessage_def createMessagePhoneSendingEvent_def createEvent_eq
        ctxLogger_Error_def dispatched_append)

subsection \<open>Envelopes that cannot be built\<close>

text \<open>
  \<^verbatim>\<open>SendMessage\<close> and \<^verbatim>\<open>ReceiveMessage\<close> return before the dispatch when the event
  cannot be built, as the handlers of \<^verbatim>\<open>StoreEvent\<close> and the goroutines of the fan-out
  do (\<open>handleMessageSentEvent_dispatched\<close>, \<open>outstandingMessage_encoding_failure\<close>).
\<close>

lemma SendMessage_encoding_failure:
  "setData env (Suc (Suc (Suc (tick w))))
     (MessageAPISentPayload (uuids env (tick w)) (sp_UserID params)
        (formatE164 env (sp_Owner params)) (formatE164 env (sp_Contact params))
        (sp_RequestReceivedAt params) (sp_Content params)) = Some err
   \<Longrightarrow> trace (snd (SendMessage env params w)) = trace w
       \<and> (\<exists>e. fst (SendMessage env params w) = Inl e)"
  by (simp add: SendMessage_def uuid_New_def createMessageAPISentEvent_def createEvent_eq)

lemma ReceiveMessage_encoding_failure:
  "setData env (Suc (Suc (Suc (tick w))))
     (MessagePhoneReceivedPayload (uuids env (tick w)) (formatE164 env (rp_Owner params))
        (rp_Contact params) (rp_Timestamp params) (rp_Content params)) = Some err
   \<Longrightarrow> trace (snd (ReceiveMessage env params w)) = trace w
       \<and> (\<exists>e. fst (ReceiveMessage env params w) = Inl e)"
  by (simp add: ReceiveMessage_def uuid_New_def createMessagePhoneReceivedEvent_def createEvent_eq)

text \<open>
  C1 holds of every event-emitting operation but the heartbeat. There the claim fails:
  \<^verbatim>\<open>registerHeartbeatEvent\<close> logs the error of \<^verbatim>\<open>SetData\<close> and dispatches the envelope
  all the same (\<open>registerHeartbeatEvent_trace\<close>). With a timestamp in the year 10000, which
  JSON cannot encode, the calls of \<^verbatim>\<open>GetOutstanding\<close> on an empty batch are the fetch, the
  logging of the encoding error, and the dispatch of the envelope without data.
\<close>

theorem registerHeartbeatEvent_dispatches_after_SetData_failure:
  "trace (snd (GetOutstanding (inMemory []) (poll (253402300800 * 1000000000)) blank))
     = [CallGetOutstanding ''user-1'' ''+18005550100'' 10,
        LogError
          (Propagate
             (Propagate (External 0)
                (CannotEncodeAsJSON (HeartbeatPhoneOutstandingPayload ''+18005550100''
                                       (253402300800 * 1000000000) 0)))
             (CannotCreateEventForOwner EventTypeHeartbeatPhoneOutstanding ''+18005550100'')),
        CallDispatch
          \<lparr>ev_Source = ''phone'', ev_Type = EventTypeHeartbeatPhoneOutstanding, ev_Time = 1,
           ev_ID = 2, ev_Data = None\<rparr>]"
  by (simp add: GetOutstanding_def repository_GetOutstanding_def registerHeartbeatEvent_def
        handleOutstandingMessages_def createHeartbeatPhoneOutstandingEvent_def createEvent_eq
        Dispatch_def Let_def called_def answered_def ctxLogger_Error_def inMemory_def
        json_SetData_def marshals_def poll_def blank_def)

subsection \<open>StoreSentMessage and StoreReceivedMessage\<close>

lemma StoreSentMessage_Load_fields:
  assumes "StoreSentMessage env params w = (Inr stored, w1)"
    and "fst (Load env userID (st_ID params) w1) = Inr m"
  shows "Status m = MessageStatusPending
       \<and> Type m = MessageTypeMobileTerminated
       \<and> RequestReceivedAt m = st_Timestamp params
       \<and> OrderTimestamp m = st_Timestamp params
       \<and> RequestReceivedAt m = OrderTimestamp m
       \<and> SendDuration m = None \<and> LastAttemptedAt m = None
       \<and> SentAt m = None \<and> ReceivedAt m = None
       \<and> m = stored"
  using assms
  by (auto simp add: StoreSentMessage_def time_Now_def Store_def Load_def Let_def called_def answered_def
      split: option.splits if_splits)

lemma StoreSentMessage_Load_storing_user:
  assumes "fst (StoreSentMessage env params w) = Inr stored"
    and "st_UserID params \<noteq> []"
  shows "\<exists>err. fst (Load env (st_UserID params) (st_ID params)
                      (snd (StoreSentMessage env params w))) = Inl err"
  using assms
  by (auto simp add: StoreSentMessage_def time_Now_def Store_def Load_def Let_def called_def
        answered_def
      split: option.splits if_splits)

lemma StoreReceivedMessage_Load_roundtrip:
  assumes "fst (StoreReceivedMessage env params w) = Inr stored"
    and "loadFault env (tick (snd (StoreReceivedMessage env params w))) (st_UserID params)
           (st_ID params) = None"
  shows "fst (Load env (st_UserID params) (st_ID params)
                (snd (StoreReceivedMessage env params w))) = Inr stored"
  using assms
  by (auto simp add: StoreReceivedMessage_def time_Now_def Store_def Load_def Let_def
        called_def answered_def
      split: option.splits if_splits)

text \<open>
  C6. The round trip fails for the user who stores the message. \<^verbatim>\<open>StoreSentMessage\<close>
  leaves the \<open>UserID\<close> of the record empty, so a \<open>Load\<close> of the same ID for the user of the
  parameters finds no message of that user; after \<^verbatim>\<open>StoreReceivedMessage\<close>, which copies
  the \<open>UserID\<close>, the same \<open>Load\<close> returns the stored message.
\<close>

theorem StoreSentMessage_Load_not_found:
  "fst (StoreSentMessage (inMemory [])
          \<lparr>st_Owner = ''+18005550100'', st_Contact = ''+18005550199'', st_Content = ''hello'',
           st_UserID = ''user-1'', st_ID = 7, st_Timestamp = 10\<rparr> blank)
     = Inr ((sample MessageStatusPending)\<lparr>UserID := [], CreatedAt := 0, UpdatedAt := 1\<rparr>)
   \<and> fst (Load (inMemory []) ''user-1'' 7
            (snd (StoreSentMessage (inMemory [])
                    \<lparr>st_Owner = ''+18005550100'', st_Contact = ''+18005550199'',
                     st_Content = ''hello'', st_UserID = ''user-1'', st_ID = 7,
                     st_Timestamp = 10\<rparr> blank)))
       = Inl NotFound
   \<and> fst (Load (inMemory []) ''user-1'' 7
            (snd (StoreReceivedMessage (inMemory [])
                    \<lparr>st_Owner = ''+18005550100'', st_Contact = ''+18005550199'',
                     st_Content = ''hello'', st_UserID = ''user-1'', st_ID = 7,
                     st_Timestamp = 10\<rparr> blank)))
       = Inr ((sample MessageStatusReceived)
                \<lparr>Type := MessageTypeMobileOriginated, CreatedAt := 0, UpdatedAt := 1,
                 ReceivedAt := Some 10\<rparr>)"
  by (simp add: StoreSentMessage_def StoreReceivedMessage_def time_Now_def Store_def Load_def
        Let_def called_def answered_def inMemory_def blank_def sample_def)

text \<open>
  C9. The message that \<^verbatim>\<open>StoreSentMessage\<close> builds and hands to \<^verbatim>\<open>Store\<close> has the
  zero \<open>UserID\<close>, so it has the \<open>UserID\<close> of the parameters only when that is the zero
  value too; the message that \<^verbatim>\<open>StoreReceivedMessage\<close> builds has the \<open>UserID\<close> of the
  parameters. On success the message built is the one returned and the one stored.
\<close>

theorem StoreSentMessage_UserID_zero:
  "(\<exists>m. trace (snd (StoreSentMessage env params w)) = trace w @ [CallStore m]
        \<and> UserID m = []
        \<and> (UserID m = st_UserID params \<longleftrightarrow> st_UserID params = [])
        \<and> (\<forall>r. fst (StoreSentMessage env params w) = Inr r
               \<longrightarrow> r = m \<and> store (snd (StoreSentMessage env params w)) (st_ID params) = Some m))
   \<and> (\<exists>m. trace (snd (StoreReceivedMessage env params w)) = trace w @ [CallStore m]
        \<and> UserID m = st_UserID params
        \<and> (\<forall>r. fst (StoreReceivedMessage env params w) = Inr r
               \<longrightarrow> r = m
                   \<and> store (snd (StoreReceivedMessage env params w)) (st_ID params) = Some m))"
  by (auto simp add: StoreSentMessage_def StoreReceivedMessage_def time_Now_def Store_def
        Let_def called_def answered_def
      split: option.splits)

theorem StoreSentMessage_UserID_zero_witness:
  "st_UserID \<lparr>st_Owner = ''+18005550100'', st_Contact = ''+18005550199'', st_Content = ''hello'',
              st_UserID = ''user-1'', st_ID = 7, st_Timestamp = 10\<rparr> \<noteq> []
   \<and> fst (StoreSentMessage (inMemory [])
            \<lparr>st_Owner = ''+18005550100'', st_Contact = ''+18005550199'', st_Content = ''hello'',
             st_UserID = ''user-1'', st_ID = 7, st_Timestamp = 10\<rparr> blank)
       = Inr ((sample MessageStatusPending)\<lparr>UserID := [], CreatedAt := 0, UpdatedAt := 1\<rparr>)
   \<and> store (snd (StoreSentMessage (inMemory [])
                   \<lparr>st_Owner = ''+18005550100'', st_Contact = ''+18005550199'',
                    st_Content = ''hello'', st_UserID = ''user-1'', st_ID = 7,
                    st_Timestamp = 10\<rparr> blank)) 7
       = Some ((sample MessageStatusPending)\<lparr>UserID := [], CreatedAt := 0, UpdatedAt := 1\<rparr>)
   \<and> (\<exists>m. fst (StoreReceivedMessage (inMemory [])
                 \<lparr>st_Owner = ''+18005550100'', st_Contact = ''+18005550199'',
                  st_Content = ''hello'', st_UserID = ''user-1'', st_ID = 7,
                  st_Timestamp = 10\<rparr> blank) = Inr m
          \<and> UserID m = ''user-1'')"
proof -
  let ?p = "\<lparr>st_Owner = ''+18005550100'', st_Contact = ''+18005550199'', st_Content = ''hello'',
              st_UserID = ''user-1'', st_ID = 7, st_Timestamp = 10\<rparr>"
  let ?m = "(sample MessageStatusPending)\<lparr>UserID := [], CreatedAt := 0, UpdatedAt := 1\<rparr>"
  have s1: "fst (StoreSentMessage (inMemory []) ?p blank) = Inr ?m"
    by (simp add: StoreSentMessage_def time_Now_def Store_def Let_def called_def answered_def inMemory_def
          blank_def sample_def)
  have s2: "\<exists>r. fst (StoreReceivedMessage (inMemory []) ?p blank) = Inr r"
    by (simp add: StoreReceivedMessage_def time_Now_def Store_def Let_def called_def answered_def
          inMemory_def blank_def)
  from StoreSentMessage_UserID_zero [of "inMemory []" ?p blank] s1 s2 show ?thesis
    by auto
qed

subsection \<open>ToUpdateParams\<close>

text \<open>
  C10. \<^verbatim>\<open>ToUpdateParams\<close> panics, with the error of the parser, on every
  \<open>MessageThreadID\<close> that does not parse as a UUID, and there are such inputs; it returns
  exactly when the \<open>MessageThreadID\<close> parses, and then with the parsed UUID, the given user
  and the flag of the request. It has no error result.
\<close>

theorem ToUpdateParams_panics:
  "(\<forall>err. uuid_Parse (MessageThreadID input) = Inl err
        \<longrightarrow> ToUpdateParams uuid_Parse input userID = Panicked err)
   \<and> ((\<exists>r. ToUpdateParams uuid_Parse input userID = Returned r)
      \<longleftrightarrow> (\<exists>u. uuid_Parse (MessageThreadID input) = Inr u))
   \<and> (\<forall>u. uuid_Parse (MessageThreadID input) = Inr u
        \<longrightarrow> ToUpdateParams uuid_Parse input userID
              = Returned \<lparr>ts_UserID = userID, ts_MessageThreadID = u,
                          ts_IsArchived = IsArchived input\<rparr>)"
  by (auto simp add: ToUpdateParams_def uuid_MustParse_def split: sum.splits)

theorem ToUpdateParams_panics_witness:
  "canonical_Parse ''not-a-uuid'' = Inl (External 10)
   \<and> ToUpdateParams canonical_Parse \<lparr>IsArchived = True, MessageThreadID = ''not-a-uuid''\<rparr>
        ''user-1'' = Panicked (External 10)
   \<and> canonical_Parse ''00000000-0000-0000-0000-00000000002a'' = Inr 42
   \<and> ToUpdateParams canonical_Parse
        \<lparr>IsArchived = True, MessageThreadID = ''00000000-0000-0000-0000-00000000002a''\<rparr>
        ''user-1''
       = Returned \<lparr>ts_UserID = ''user-1'', ts_MessageThreadID = 42, ts_IsArchived = True\<rparr>"
proof -
  let ?bad = "\<lparr>IsArchived = True, MessageThreadID = ''not-a-uuid''\<rparr>"
  let ?good = "\<lparr>IsArchived = True, MessageThreadID = ''00000000-0000-0000-0000-00000000002a''\<rparr>"
  have b: "canonical_Parse (MessageThreadID ?bad) = Inl (External 10)"
    by (simp add: canonical_Parse_def)
  have g: "canonical_Parse (MessageThreadID ?good) = Inr 42"
    by (simp add: canonical_Parse_def xtob_def)
  from ToUpdateParams_panics [of canonical_Parse ?bad "''user-1''"]
       ToUpdateParams_panics [of canonical_Parse ?good "''user-1''"] b g
  show ?thesis
    by simp
qed

end
